theory Spec2Isabelle
  imports Main
begin

section \<open>JavaScript values, objects and errors\<close>

text \<open>
  The values the prize records carry. A \<open>BigNumber\<close> is an ethers big integer, a
  \<open>Number\<close> a JavaScript number holding an integer (draw ids, tier indices).
\<close>

datatype jsval = Undefined | Number int | BigNumber int | String string

text \<open>
  A prize record of either historical shape is a plain object: its own properties by
  name. \<open>'distributionIndex' in prize\<close> is \<open>prize ''distributionIndex'' \<noteq> None\<close>,
  and the spread \<open>{...prize, tierIndex: v}\<close> is \<open>prize(''tierIndex'' \<mapsto> v)\<close>.
\<close>

type_synonym prize = "string \<rightharpoonup> jsval"

text \<open>
  A draw-results wrapper is an object whose \<open>prizes\<close> property is typed as an array
  of prize records; every other property holds a plain value.
\<close>

datatype member = Plain jsval | PrizeArray "prize list"

type_synonym jsobject = "string \<rightharpoonup> member"

section \<open>Contract types and errors\<close>

text \<open>The contract type tags of \<open>constants.ts\<close> that the source names.\<close>

datatype ContractType =
    PrizeDistributor | DrawCalculator | DrawCalculatorTimelock
  | DrawBuffer | PrizeDistributionBuffer | Ticket | OtherContract string

text \<open>
  Every \<open>throw\<close> and every rejected promise of the source is a value of this type.
  The source throws plain \<open>Error\<close>s that differ in their message; the constructors
  name the kind and carry the message. \<open>Rethrown reason\<close> is \<open>new Error(reason)\<close>.
\<close>

datatype error =
    TypeError string
  | CallError string
  | SignerRequiredError string
  | NetworkMismatchError string
  | NothingToClaimError string
  | ContractResolutionError ContractType nat
  | Rethrown error

text \<open>Reading a property that is absent gives \<open>undefined\<close>.\<close>

definition readField :: "prize \<Rightarrow> string \<Rightarrow> jsval" where
  "readField p k = (case p k of None \<Rightarrow> Undefined | Some v \<Rightarrow> v)"

definition readMember :: "jsobject \<Rightarrow> string \<Rightarrow> member" where
  "readMember r k = (case r k of None \<Rightarrow> Plain Undefined | Some m \<Rightarrow> m)"

text \<open>\<open>Array.prototype.map\<close> with a callback that may throw: the first throw ends it.\<close>

fun mapE :: "('a \<Rightarrow> error + 'b) \<Rightarrow> 'a list \<Rightarrow> error + 'b list" where
  "mapE f [] = Inr []"
| "mapE f (x # xs) =
     (case f x of
        Inl e \<Rightarrow> Inl e
      | Inr y \<Rightarrow> (case mapE f xs of Inl e \<Rightarrow> Inl e | Inr ys \<Rightarrow> Inr (y # ys)))"

section \<open>Legacy Normalizer\<close>

text \<open>
  The tier of a prize, as both conversions compute it:
  \<open>'distributionIndex' in prize ? prize.distributionIndex : prize.tierIndex\<close>.
\<close>

definition tierIndexOf :: "prize \<Rightarrow> jsval" where
  "tierIndexOf prize =
     (if prize ''distributionIndex'' \<noteq> None then readField prize ''distributionIndex''
      else readField prize ''tierIndex'')"

subsection \<open>The draw-results conversion\<close>

text \<open>
  The callback of \<open>_prizes.map\<close>: the prize is rebuilt field by field. \<open>BigNumber.from\<close>
  belongs to ethers and is a parameter; the object literal evaluates \<open>amount\<close> first,
  so its failure wins over that of \<open>pick\<close>.
\<close>

definition formatPrize :: "(jsval \<Rightarrow> error + jsval) \<Rightarrow> prize \<Rightarrow> error + prize" where
  "formatPrize BigNumber_from prize =
     (case BigNumber_from (readField prize ''amount'') of
        Inl e \<Rightarrow> Inl e
      | Inr amount \<Rightarrow>
          (case BigNumber_from (readField prize ''pick'') of
             Inl e \<Rightarrow> Inl e
           | Inr pick \<Rightarrow>
               Inr [''amount'' \<mapsto> amount, ''tierIndex'' \<mapsto> tierIndexOf prize, ''pick'' \<mapsto> pick]))"

text \<open>
  \<open>formatDrawResultsFromLegacyDrawResults\<close> of the draw-results file. When
  \<open>legacyDrawResult.prizes\<close> is not an array, the call of \<open>map\<close> throws a TypeError.
  A field the input lacks is read as \<open>undefined\<close> and written as such.
\<close>

definition formatDrawResultsFromLegacyDrawResults ::
  "(jsval \<Rightarrow> error + jsval) \<Rightarrow> jsobject \<Rightarrow> error + jsobject" where
  "formatDrawResultsFromLegacyDrawResults BigNumber_from legacyDrawResult =
     (case legacyDrawResult ''prizes'' of
        Some (PrizeArray prizes0) \<Rightarrow>
          (case mapE (formatPrize BigNumber_from) prizes0 of
             Inl e \<Rightarrow> Inl e
           | Inr prizes \<Rightarrow>
               Inr [''drawId'' \<mapsto> readMember legacyDrawResult ''drawId'',
                    ''totalValue'' \<mapsto> readMember legacyDrawResult ''totalValue'',
                    ''prizes'' \<mapsto> PrizeArray prizes])
      | _ \<Rightarrow> Inl (TypeError ''legacyDrawResult.prizes is not an array''))"

subsection \<open>The extended conversion\<close>

text \<open>The callback of \<open>prizes.map\<close>: \<open>{...prize, tierIndex: ...}\<close>.\<close>

definition normalizePrize :: "prize \<Rightarrow> prize" where
  "normalizePrize prize = prize(''tierIndex'' \<mapsto> tierIndexOf prize)"

text \<open>
  \<open>formatDrawResultsFromLegacyDrawResults\<close> of the extended file:
  \<open>{...legacyDrawResult, prizes: normalizedPrizes}\<close>.
\<close>

definition formatDrawResultsFromLegacyDrawResults_extended :: "jsobject \<Rightarrow> error + jsobject" where
  "formatDrawResultsFromLegacyDrawResults_extended legacyDrawResult =
     (case legacyDrawResult ''prizes'' of
        Some (PrizeArray prizes) \<Rightarrow>
          Inr (legacyDrawResult(''prizes'' \<mapsto> PrizeArray (map normalizePrize prizes)))
      | _ \<Rightarrow> Inl (TypeError ''legacyDrawResult.prizes is not an array''))"

subsection \<open>The two shapes of the data model\<close>

definition isBigNumber :: "jsval option \<Rightarrow> bool" where
  "isBigNumber v = (case v of Some (BigNumber b) \<Rightarrow> True | _ \<Rightarrow> False)"



text \<open>The prizes of a wrapper, when it has an array of them.\<close>

definition prizesOf :: "jsobject \<Rightarrow> prize list option" where
  "prizesOf r = (case r ''prizes'' of Some (PrizeArray ps) \<Rightarrow> Some ps | _ \<Rightarrow> None)"




section \<open>Contracts, signers and the chain\<close>

text \<open>ContractMetadata: the static description of a deployed contract.\<close>

record ContractMetadata =
  chainId :: int
  address :: string
  type' :: ContractType
  abi :: string
  children :: "(string \<times> string) list option"

text \<open>
  A signer answers \<open>getAddress()\<close> and \<open>getChainId()\<close>, both calls that may reject.
  \<open>NoProvider\<close> is the \<open>undefined\<close> that \<open>signersOrProviders[chainId]\<close> gives for a
  chain without an entry.
\<close>

record signer =
  signer_getAddress :: "error + string"
  signer_getChainId :: "error + int"

datatype SignerOrProvider = Provider string | Signer signer | NoProvider

text \<open>An ethers contract handle: an address and an ABI bound to a signer or provider.\<close>

record Contract =
  contract_address :: string
  contract_abi :: string
  contract_signerOrProvider :: SignerOrProvider

record Draw =
  drawId :: int
  timestamp :: int
  winningRandomNumber :: int

record PrizeDistribution =
  matchCardinality :: int
  numberOfPicks :: int
  tiers :: "int list"
  bitRangeSize :: int
  prize :: int
  drawStartTimestampOffset :: int
  drawEndTimestampOffset :: int
  maxPicksPerUser :: int

text \<open>
  DrawCalcUser; \<open>claimPrizesByDrawResults\<close> builds one with the address alone
  (\<open>{ address: usersAddress } as DrawCalcUser\<close>).
\<close>

record DrawCalcUser =
  user_address :: string
  normalizedBalances :: "int list option"

record Claim =
  userAddress :: string
  drawIds :: "int list"
  encodedWinningPickIndices :: string

type_synonym TransactionResponse = string

text \<open>
  The external collaborators: what each contract call answers on the handle it is made
  on, the two routines of the prize-calculation library, and the batched multicall.
  A call that rejects answers \<open>Inl\<close>.
\<close>

record world =
  functions_getDrawBuffer :: "Contract \<Rightarrow> error + string"
  functions_getPrizeDistributionBuffer :: "Contract \<Rightarrow> error + string"
  functions_getNewestDraw :: "Contract \<Rightarrow> error + Draw"
  functions_getOldestDraw :: "Contract \<Rightarrow> error + Draw"
  functions_getNewestPrizeDistribution :: "Contract \<Rightarrow> error + PrizeDistribution \<times> int"
  functions_getOldestPrizeDistribution :: "Contract \<Rightarrow> error + PrizeDistribution \<times> int"
  functions_getDraws :: "Contract \<Rightarrow> int list \<Rightarrow> error + Draw list"
  functions_getPrizeDistributions :: "Contract \<Rightarrow> int list \<Rightarrow> error + PrizeDistribution list"
  functions_getPrizeDistribution :: "Contract \<Rightarrow> int \<Rightarrow> error + PrizeDistribution"
  functions_getNormalizedBalancesForDrawIds :: "Contract \<Rightarrow> string \<Rightarrow> int list \<Rightarrow> error + int list"
  contract_claim :: "Contract \<Rightarrow> string \<Rightarrow> int list \<Rightarrow> string \<Rightarrow> int \<Rightarrow> error + TransactionResponse"
  calculateDrawResults :: "PrizeDistribution \<Rightarrow> Draw \<Rightarrow> DrawCalcUser \<Rightarrow> error + jsobject"
  prepareClaims :: "DrawCalcUser \<Rightarrow> jsobject list \<Rightarrow> error + Claim"
  batch :: "SignerOrProvider \<Rightarrow> ContractMetadata list \<Rightarrow> error + (string \<times> string) list"

section \<open>Contract Registry Lookup\<close>

text \<open>
  Modelled from the spec: \<open>getContractsByType\<close> of \<open>utils/getContractsByType\<close>, which is
  not among the sources. It filters the flat list by type tag.
\<close>

definition getContractsByType :: "ContractMetadata list \<Rightarrow> ContractType \<Rightarrow> ContractMetadata list" where
  "getContractsByType contracts contractType = filter (\<lambda>contract. type' contract = contractType) contracts"

text \<open>
  Modelled from the spec: \<open>getMetadataAndContract\<close> of \<open>utils/getMetadataAndContract\<close>,
  which is not among the sources. It filters by type tag and, when an address is given,
  by address; exactly one record must match, otherwise it fails with the type tag and the
  count found. It makes no network call.
\<close>

definition getMetadataAndContract ::
  "SignerOrProvider \<Rightarrow> ContractType \<Rightarrow> ContractMetadata list \<Rightarrow> string option \<Rightarrow>
   error + ContractMetadata \<times> Contract" where
  "getMetadataAndContract signerOrProvider contractType contractMetadataList addressOverride =
     (let matches = filter (\<lambda>contract. case addressOverride of
                                None \<Rightarrow> True | Some a \<Rightarrow> address contract = a)
                      (getContractsByType contractMetadataList contractType)
      in case matches of
           [contractMetadata] \<Rightarrow>
             Inr (contractMetadata,
                  \<lparr>contract_address = address contractMetadata,
                   contract_abi = abi contractMetadata,
                   contract_signerOrProvider = signerOrProvider\<rparr>)
         | _ \<Rightarrow> Inl (ContractResolutionError contractType (length matches)))"

section \<open>Validation helpers\<close>

text \<open>
  Modelled from the spec: \<open>validateIsSigner\<close> of \<open>utils/validation\<close>, which is not among
  the sources. Signer-presence validation: it fails with a SignerRequiredError carrying
  the caller's prefix when the binding is not a signer, and returns the signer otherwise.
\<close>

definition validateIsSigner :: "string \<Rightarrow> SignerOrProvider \<Rightarrow> error + signer" where
  "validateIsSigner errorPrefix signerOrProvider =
     (case signerOrProvider of
        Signer s \<Rightarrow> Inr s
      | _ \<Rightarrow> Inl (SignerRequiredError errorPrefix))"

text \<open>
  Modelled from the spec: \<open>validateSignerNetwork\<close> of \<open>utils/validation\<close>, which is not
  among the sources. Signer-network-match validation: it fails with a
  NetworkMismatchError carrying the caller's prefix when the signer's chain differs from
  the expected chain id. Reading the signer's chain is a call that may reject. The spec
  does not say what it does when handed something that is no signer; there the read of
  the chain is a TypeError.
\<close>

definition validateSignerNetwork :: "string \<Rightarrow> SignerOrProvider \<Rightarrow> int \<Rightarrow> error + unit" where
  "validateSignerNetwork errorPrefix signerOrProvider expected =
     (case signerOrProvider of
        Signer s \<Rightarrow>
          (case signer_getChainId s of
             Inl e \<Rightarrow> Inl e
           | Inr signerChainId \<Rightarrow>
               if signerChainId = expected then Inr ()
               else Inl (NetworkMismatchError errorPrefix))
      | _ \<Rightarrow> Inl (TypeError ''signer.getChainId is not a function''))"

section \<open>Distributor Facade\<close>

text \<open>The fields of the class \<open>PrizeDistributor\<close>; \<open>undefined\<close> is \<open>None\<close>.\<close>

record PrizeDistributor =
  signerOrProvider :: SignerOrProvider
  contractMetadataList :: "ContractMetadata list"
  this_chainId :: int
  this_address :: string
  prizeDistributorsMetadata :: ContractMetadata
  drawCalculatorMetadata :: ContractMetadata
  drawCalculatorTimelockMetadata :: ContractMetadata
  drawBuffer :: "ContractMetadata option"
  prizeDistributionsBuffer :: "ContractMetadata option"
  prizeDistributorsContract :: Contract
  drawCalculatorContract :: Contract
  drawCalculatorTimelockContract :: Contract
  drawBufferContract :: "Contract option"
  prizeDistributionsBufferContract :: "Contract option"

text \<open>
  What an asynchronous method does besides settling: the address fetch it issued, the
  registry lookup it ran, the assignment to the two lazy fields of a key, the call of the
  prize-calculation routine, the claim transaction it submitted.
\<close>

datatype event =
    AddressFetched string
  | Resolved ContractType string
  | FieldsSet string ContractMetadata Contract
  | Calculated
  | ClaimSubmitted Claim int

text \<open>
  An asynchronous method is a function of the object as it stands when the method is
  called: every method below reads the mutable fields only before its first \<open>await\<close>.
  It gives how the promise settles and the effects it has on the way, in order. The
  assignments take place when the continuation runs, which is after every call made in
  the same synchronous stretch (the elements of an array handed to
  \<open>Promise.allSettled\<close>) has read the fields.
\<close>

type_synonym 'a promise = "(error + 'a) \<times> event list"

definition await :: "'a promise \<Rightarrow> ('a \<Rightarrow> 'b promise) \<Rightarrow> 'b promise" where
  "await p k =
     (case p of
        (Inl e, evs) \<Rightarrow> (Inl e, evs)
      | (Inr x, evs) \<Rightarrow> (case k x of (r, evs') \<Rightarrow> (r, evs @ evs')))"

definition call :: "error + 'a \<Rightarrow> 'a promise" where
  "call r = (r, [])"

text \<open>
  The assignments \<open>this[contractMetadataKey] = contractMetadata\<close> and
  \<open>this[contractKey] = contract\<close>. The method that makes them is private and is called
  with the keys \<open>drawBuffer\<close> and \<open>prizeDistributionsBuffer\<close> only.
\<close>

definition setFields :: "string \<Rightarrow> ContractMetadata \<Rightarrow> Contract \<Rightarrow> PrizeDistributor \<Rightarrow> PrizeDistributor" where
  "setFields contractMetadataKey contractMetadata contract this =
     (if contractMetadataKey = ''drawBuffer''
      then this\<lparr>drawBuffer := Some contractMetadata, drawBufferContract := Some contract\<rparr>
      else if contractMetadataKey = ''prizeDistributionsBuffer''
      then this\<lparr>prizeDistributionsBuffer := Some contractMetadata,
                 prizeDistributionsBufferContract := Some contract\<rparr>
      else this)"

fun perform :: "event list \<Rightarrow> PrizeDistributor \<Rightarrow> PrizeDistributor" where
  "perform [] this = this"
| "perform (FieldsSet k m c # evs) this = perform evs (setFields k m c this)"
| "perform (_ # evs) this = perform evs this"

text \<open>The read \<open>this[contractKey]\<close> of a lazy or a readonly contract field.\<close>

definition contractField :: "string \<Rightarrow> PrizeDistributor \<Rightarrow> Contract option" where
  "contractField contractKey this =
     (if contractKey = ''drawBufferContract'' then drawBufferContract this
      else if contractKey = ''prizeDistributionsBufferContract'' then prizeDistributionsBufferContract this
      else if contractKey = ''prizeDistributorsContract'' then Some (prizeDistributorsContract this)
      else if contractKey = ''drawCalculatorContract'' then Some (drawCalculatorContract this)
      else if contractKey = ''drawCalculatorTimelockContract'' then Some (drawCalculatorTimelockContract this)
      else None)"

text \<open>The constructor; each of the three lookups may throw.\<close>

definition newPrizeDistributor :: "SignerOrProvider \<Rightarrow> ContractMetadata list \<Rightarrow> error + PrizeDistributor" where
  "newPrizeDistributor signerOrProvider0 contractMetadataList0 =
     (case getMetadataAndContract signerOrProvider0 PrizeDistributor contractMetadataList0 None of
        Inl e \<Rightarrow> Inl e
      | Inr (prizeDistributorsContractMetadata, prizeDistributorsContract0) \<Rightarrow>
     (case getMetadataAndContract signerOrProvider0 DrawCalculator contractMetadataList0 None of
        Inl e \<Rightarrow> Inl e
      | Inr (drawCalculatorContractMetadata, drawCalculatorContract0) \<Rightarrow>
     (case getMetadataAndContract signerOrProvider0 DrawCalculatorTimelock contractMetadataList0 None of
        Inl e \<Rightarrow> Inl e
      | Inr (drawCalculatorTimelockContractMetadata, drawCalculatorTimelockContract0) \<Rightarrow>
          Inr \<lparr>signerOrProvider = signerOrProvider0,
               contractMetadataList = contractMetadataList0,
               this_chainId = chainId prizeDistributorsContractMetadata,
               this_address = address prizeDistributorsContractMetadata,
               prizeDistributorsMetadata = prizeDistributorsContractMetadata,
               drawCalculatorMetadata = drawCalculatorContractMetadata,
               drawCalculatorTimelockMetadata = drawCalculatorTimelockContractMetadata,
               drawBuffer = None,
               prizeDistributionsBuffer = None,
               prizeDistributorsContract = prizeDistributorsContract0,
               drawCalculatorContract = drawCalculatorContract0,
               drawCalculatorTimelockContract = drawCalculatorTimelockContract0,
               drawBufferContract = None,
               prizeDistributionsBufferContract = None\<rparr>)))"

subsection \<open>Lazy contract handles\<close>

text \<open>
  \<open>getAndSetEthersContract\<close> in its two stretches. Up to \<open>await getContractAddress()\<close> it
  reads \<open>this[contractKey]\<close> and returns the handle when there is one.
\<close>

definition getAndSetEthersContract_start :: "string \<Rightarrow> PrizeDistributor \<Rightarrow> Contract option" where
  "getAndSetEthersContract_start contractMetadataKey this =
     (let contractKey = contractMetadataKey @ ''Contract'' in contractField contractKey this)"

text \<open>
  Once the address fetch has settled the method resumes: a rejected fetch rejects the
  call; otherwise the registry is consulted and, unless the lookup throws, both fields
  are assigned. The field is not read again here. Of the object the continuation uses the
  readonly \<open>signerOrProvider\<close> and \<open>contractMetadataList\<close> only.
\<close>

definition getAndSetEthersContract_resume ::
  "string \<Rightarrow> ContractType \<Rightarrow> error + string \<Rightarrow> PrizeDistributor \<Rightarrow> Contract promise" where
  "getAndSetEthersContract_resume contractMetadataKey contractType fetched this =
     (case fetched of
        Inl e \<Rightarrow> (Inl e, [AddressFetched contractMetadataKey])
      | Inr contractAddress \<Rightarrow>
          (case getMetadataAndContract (signerOrProvider this) contractType
                  (contractMetadataList this) (Some contractAddress) of
             Inl e \<Rightarrow>
               (Inl e, [AddressFetched contractMetadataKey, Resolved contractType contractAddress])
           | Inr (contractMetadata, contract) \<Rightarrow>
               (Inr contract,
                [AddressFetched contractMetadataKey, Resolved contractType contractAddress,
                 FieldsSet contractMetadataKey contractMetadata contract])))"

definition getAndSetEthersContract ::
  "string \<Rightarrow> ContractType \<Rightarrow> (unit \<Rightarrow> error + string) \<Rightarrow> PrizeDistributor \<Rightarrow> Contract promise" where
  "getAndSetEthersContract contractMetadataKey contractType getContractAddress this =
     (case getAndSetEthersContract_start contractMetadataKey this of
        Some contract \<Rightarrow> (Inr contract, [])
      | None \<Rightarrow>
          getAndSetEthersContract_resume contractMetadataKey contractType (getContractAddress ()) this)"

definition getDrawBufferContract :: "world \<Rightarrow> PrizeDistributor \<Rightarrow> Contract promise" where
  "getDrawBufferContract w this =
     getAndSetEthersContract ''drawBuffer'' DrawBuffer
       (\<lambda>_. functions_getDrawBuffer w (drawCalculatorContract this)) this"

definition getPrizeDistributionsBufferContract :: "world \<Rightarrow> PrizeDistributor \<Rightarrow> Contract promise" where
  "getPrizeDistributionsBufferContract w this =
     getAndSetEthersContract ''prizeDistributionsBuffer'' PrizeDistributionBuffer
       (\<lambda>_. functions_getPrizeDistributionBuffer w (drawCalculatorContract this)) this"

subsection \<open>Reads of the two buffers\<close>

definition copyDraw :: "Draw \<Rightarrow> Draw" where
  "copyDraw draw =
     \<lparr>drawId = drawId draw, timestamp = timestamp draw, winningRandomNumber = winningRandomNumber draw\<rparr>"

definition copyPrizeDistribution :: "PrizeDistribution \<Rightarrow> PrizeDistribution" where
  "copyPrizeDistribution result =
     \<lparr>matchCardinality = matchCardinality result,
      numberOfPicks = numberOfPicks result,
      tiers = tiers result,
      bitRangeSize = bitRangeSize result,
      prize = prize result,
      drawStartTimestampOffset = drawStartTimestampOffset result,
      drawEndTimestampOffset = drawEndTimestampOffset result,
      maxPicksPerUser = maxPicksPerUser result\<rparr>"

definition getNewestDraw :: "world \<Rightarrow> PrizeDistributor \<Rightarrow> Draw promise" where
  "getNewestDraw w this =
     await (getDrawBufferContract w this) (\<lambda>drawBufferContract0.
     await (call (functions_getNewestDraw w drawBufferContract0)) (\<lambda>draw.
     call (Inr (copyDraw draw))))"

definition getOldestDraw :: "world \<Rightarrow> PrizeDistributor \<Rightarrow> Draw promise" where
  "getOldestDraw w this =
     await (getDrawBufferContract w this) (\<lambda>drawBufferContract0.
     await (call (functions_getOldestDraw w drawBufferContract0)) (\<lambda>draw.
     call (Inr (copyDraw draw))))"

definition getNewestPrizeDistribution :: "world \<Rightarrow> PrizeDistributor \<Rightarrow> (PrizeDistribution \<times> int) promise" where
  "getNewestPrizeDistribution w this =
     await (getPrizeDistributionsBufferContract w this) (\<lambda>prizeDistributionBufferContract.
     await (call (functions_getNewestPrizeDistribution w prizeDistributionBufferContract))
       (\<lambda>(prizeDistribution, drawId0).
     call (Inr (copyPrizeDistribution prizeDistribution, drawId0))))"

definition getOldestPrizeDistribution :: "world \<Rightarrow> PrizeDistributor \<Rightarrow> (PrizeDistribution \<times> int) promise" where
  "getOldestPrizeDistribution w this =
     await (getPrizeDistributionsBufferContract w this) (\<lambda>prizeDistributionBufferContract.
     await (call (functions_getOldestPrizeDistribution w prizeDistributionBufferContract))
       (\<lambda>(prizeDistribution, drawId0).
     call (Inr (copyPrizeDistribution prizeDistribution, drawId0))))"

subsection \<open>Range Reconciler\<close>

text \<open>
  The loop \<open>for (let i = oldestId; i <= newestId; i++) ids.push(i)\<close>, the array it
  fills as an accumulator.
\<close>

function pushRange :: "int \<Rightarrow> int \<Rightarrow> int list \<Rightarrow> int list" where
  "pushRange i newestId ids = (if i \<le> newestId then pushRange (i + 1) newestId (ids @ [i]) else ids)"
  by pat_completeness auto
termination
  by (relation "measure (\<lambda>(i, newestId, ids). nat (newestId + 1 - i))") auto

text \<open>
  The two reads are called one after the other and awaited together
  (\<open>Promise.allSettled\<close>): both see the same fields. The effects are listed call by
  call; the continuations of the calls may run interleaved, which changes neither the
  effects of a call nor their number. The method itself never rejects.
\<close>

definition getDrawIdsFromDrawBuffer :: "world \<Rightarrow> PrizeDistributor \<Rightarrow> int list \<times> event list" where
  "getDrawIdsFromDrawBuffer w this =
     (let (oldestDrawResponse, evs1) = getOldestDraw w this;
          (newestDrawResponse, evs2) = getNewestDraw w this
      in (case (newestDrawResponse, oldestDrawResponse) of
            (Inr newest, Inr oldest) \<Rightarrow> pushRange (drawId oldest) (drawId newest) []
          | _ \<Rightarrow> [],
          evs1 @ evs2))"

definition getDrawIdsFromPrizeDistributionBuffer :: "world \<Rightarrow> PrizeDistributor \<Rightarrow> int list \<times> event list" where
  "getDrawIdsFromPrizeDistributionBuffer w this =
     (let (oldestPrizeDistributionResponse, evs1) = getOldestPrizeDistribution w this;
          (newestPrizeDistributionResponse, evs2) = getNewestPrizeDistribution w this
      in (case (newestPrizeDistributionResponse, oldestPrizeDistributionResponse) of
            (Inr newest, Inr oldest) \<Rightarrow> pushRange (snd oldest) (snd newest) []
          | _ \<Rightarrow> [],
          evs1 @ evs2))"

definition getValidDrawIds :: "world \<Rightarrow> PrizeDistributor \<Rightarrow> int list \<times> event list" where
  "getValidDrawIds w this =
     (let (oldestPrizeDistributionResponse, evs1) = getOldestPrizeDistribution w this;
          (newestPrizeDistributionResponse, evs2) = getNewestPrizeDistribution w this;
          (oldestDrawResponse, evs3) = getOldestDraw w this;
          (newestDrawResponse, evs4) = getNewestDraw w this
      in (if isl oldestPrizeDistributionResponse \<or> isl newestPrizeDistributionResponse \<or>
             isl newestDrawResponse \<or> isl oldestDrawResponse
          then []
          else
            let oldestPrizeDistributionId = snd (projr oldestPrizeDistributionResponse);
                newestPrizeDistributionId = snd (projr newestPrizeDistributionResponse);
                oldestDrawId = drawId (projr oldestDrawResponse);
                newestDrawId = drawId (projr newestDrawResponse);
                oldestId = max oldestPrizeDistributionId oldestDrawId;
                newestId = min newestDrawId newestPrizeDistributionId
            in if newestId < oldestId then [] else pushRange oldestId newestId [],
          evs1 @ evs2 @ evs3 @ evs4))"

subsection \<open>Batched reads and the paired fetch\<close>

definition getDraws :: "world \<Rightarrow> PrizeDistributor \<Rightarrow> int list \<Rightarrow> Draw list promise" where
  "getDraws w this drawIds0 =
     (if drawIds0 = [] then (Inr [], [])
      else
        await (getDrawBufferContract w this) (\<lambda>drawBufferContract0.
        await (call (functions_getDraws w drawBufferContract0 drawIds0)) (\<lambda>response.
        call (Inr (map copyDraw response)))))"

definition getPrizeDistributions :: "world \<Rightarrow> PrizeDistributor \<Rightarrow> int list \<Rightarrow> PrizeDistribution list promise" where
  "getPrizeDistributions w this drawIds0 =
     (if drawIds0 = [] then (Inr [], [])
      else
        await (getPrizeDistributionsBufferContract w this) (\<lambda>prizeDistributionsBufferContract0.
        await (call (functions_getPrizeDistributions w prizeDistributionsBufferContract0 drawIds0))
          (\<lambda>prizeDistributionsResults.
        call (Inr (map copyPrizeDistribution prizeDistributionsResults)))))"

text \<open>
  \<open>drawsResponse.value.map((draw, index) => ...)\<close>: one pair per draw; an index beyond the
  prize distributions reads \<open>undefined\<close>.
\<close>

definition pairUp :: "Draw list \<Rightarrow> PrizeDistribution list \<Rightarrow> (Draw \<times> PrizeDistribution option) list" where
  "pairUp draws prizeDistributions =
     map (\<lambda>(index, draw).
            (draw, if index < length prizeDistributions then Some (prizeDistributions ! index) else None))
         (enumerate 0 draws)"

text \<open>\<open>drawIds.sort((a, b) => a - b).slice(0, drawIds.length - 1)\<close>.\<close>

definition dropLargest :: "int list \<Rightarrow> int list" where
  "dropLargest drawIds0 = take (length drawIds0 - 1) (sort drawIds0)"

text \<open>
  When either read is rejected the method calls itself on the shorter list. The call
  comes after the \<open>await\<close>, so it sees the fields the two reads have assigned. A read
  rejects only on a list that is not empty, which is why the recursion ends. (The sort is
  in place: the caller's array is reordered as well, which no read of the model sees.)
\<close>

function getDrawsAndPrizeDistributions ::
  "world \<Rightarrow> PrizeDistributor \<Rightarrow> int list \<Rightarrow> (Draw \<times> PrizeDistribution option) list \<times> event list" where
  "getDrawsAndPrizeDistributions w this drawIds0 =
     (let drawsResponse = fst (getDraws w this drawIds0);
          prizeDistributionsResponse = fst (getPrizeDistributions w this drawIds0);
          evs = snd (getDraws w this drawIds0) @ snd (getPrizeDistributions w this drawIds0)
      in if isl drawsResponse \<or> isl prizeDistributionsResponse
         then
           (case getDrawsAndPrizeDistributions w (perform evs this) (dropLargest drawIds0) of
              (pairs, evs') \<Rightarrow> (pairs, evs @ evs'))
         else (pairUp (projr drawsResponse) (projr prizeDistributionsResponse), evs))"
  by pat_completeness auto
termination
proof (relation "measure (\<lambda>(w, this, drawIds0). length drawIds0)")
  show "wf (measure (\<lambda>(w, this, drawIds0). length drawIds0))"
    by simp
next
  fix w :: world and this :: PrizeDistributor and drawIds0 :: "int list"
  fix drawsResponse :: "error + Draw list"
  fix prizeDistributionsResponse :: "error + PrizeDistribution list"
  fix evs :: "event list"
  assume "drawsResponse = fst (getDraws w this drawIds0)"
    and "prizeDistributionsResponse = fst (getPrizeDistributions w this drawIds0)"
    and "isl drawsResponse \<or> isl prizeDistributionsResponse"
  then have "drawIds0 \<noteq> []"
    by (auto simp: getDraws_def getPrizeDistributions_def)
  then show "((w, perform evs this, dropLargest drawIds0), (w, this, drawIds0))
               \<in> measure (\<lambda>(w, this, drawIds0). length drawIds0)"
    by (simp add: dropLargest_def)
qed

text \<open>
  The retries of a run: a step is taken when either batched read is rejected, and leads
  to the object after the assignments of the two reads and to the list without its
  largest id.
\<close>

definition fetchFails :: "world \<Rightarrow> PrizeDistributor \<Rightarrow> int list \<Rightarrow> bool" where
  "fetchFails w this drawIds0 \<longleftrightarrow>
     isl (fst (getDraws w this drawIds0)) \<or> isl (fst (getPrizeDistributions w this drawIds0))"

definition retry :: "world \<Rightarrow> PrizeDistributor \<times> int list \<Rightarrow> PrizeDistributor \<times> int list \<Rightarrow> bool" where
  "retry w a b \<longleftrightarrow>
     fetchFails w (fst a) (snd a) \<and>
     fst b = perform (snd (getDraws w (fst a) (snd a)) @ snd (getPrizeDistributions w (fst a) (snd a))) (fst a) \<and>
     snd b = dropLargest (snd a)"

subsection \<open>A user's prizes\<close>

definition getPrizeDistribution :: "world \<Rightarrow> PrizeDistributor \<Rightarrow> int \<Rightarrow> PrizeDistribution promise" where
  "getPrizeDistribution w this drawId0 =
     await (getPrizeDistributionsBufferContract w this) (\<lambda>prizeDistributionsBufferContract0.
     await (call (functions_getPrizeDistribution w prizeDistributionsBufferContract0 drawId0)) (\<lambda>result.
     call (Inr (copyPrizeDistribution result))))"

text \<open>
  \<open>balanceResult[0][0]\<close>: the world answers \<open>balanceResult[0]\<close>; when that array is empty
  the balance is \<open>undefined\<close> and \<open>normalizedBalance.isZero()\<close> is a TypeError.
\<close>

definition getUsersPrizes :: "world \<Rightarrow> PrizeDistributor \<Rightarrow> string \<Rightarrow> Draw \<Rightarrow> jsobject promise" where
  "getUsersPrizes w this usersAddress draw =
     await (getPrizeDistribution w this (drawId draw)) (\<lambda>prizeDistribution.
     await (call (functions_getNormalizedBalancesForDrawIds w (drawCalculatorContract this)
                    usersAddress [drawId draw])) (\<lambda>balanceResult.
       case balanceResult of
         [] \<Rightarrow> (Inl (TypeError ''normalizedBalance is undefined''), [])
       | normalizedBalance # _ \<Rightarrow>
           (let user = \<lparr>user_address = usersAddress, normalizedBalances = Some [normalizedBalance]\<rparr>
            in if normalizedBalance = 0
               then (Inr [''drawId'' \<mapsto> Plain (Number (drawId draw)),
                          ''totalValue'' \<mapsto> Plain (BigNumber 0),
                          ''prizes'' \<mapsto> PrizeArray []], [])
               else (calculateDrawResults w prizeDistribution draw user, [Calculated]))))"

subsection \<open>Claiming prizes\<close>

definition getUsersAddress :: "PrizeDistributor \<Rightarrow> string \<Rightarrow> string promise" where
  "getUsersAddress this errorPrefix =
     await (call (validateIsSigner errorPrefix (signerOrProvider this))) (\<lambda>signer0.
     call (signer_getAddress signer0))"

text \<open>
  \<open>drawResults.totalValue.isZero()\<close> is a TypeError when \<open>totalValue\<close> is no BigNumber.
  The gas limit override is 400000.
\<close>

definition claimPrizesByDrawResults :: "world \<Rightarrow> PrizeDistributor \<Rightarrow> jsobject \<Rightarrow> TransactionResponse promise" where
  "claimPrizesByDrawResults w this drawResults =
     (let errorPrefix = ''PrizeDistributors [claimPrizes] | '' in
      await (getUsersAddress this errorPrefix) (\<lambda>usersAddress.
      await (call (validateSignerNetwork errorPrefix (signerOrProvider this) (this_chainId this))) (\<lambda>_.
        case readMember drawResults ''totalValue'' of
          Plain (BigNumber totalValue) \<Rightarrow>
            if totalValue = 0
            then (Inl (NothingToClaimError (errorPrefix @ ''No prizes to claim.'')), [])
            else
              await (call (prepareClaims w \<lparr>user_address = usersAddress, normalizedBalances = None\<rparr>
                             [drawResults])) (\<lambda>claim.
                (contract_claim w (prizeDistributorsContract this) (userAddress claim) (drawIds claim)
                   (encodedWinningPickIndices claim) 400000,
                 [ClaimSubmitted claim 400000]))
        | _ \<Rightarrow> (Inl (TypeError ''drawResults.totalValue.isZero is not a function''), []))))"

subsection \<open>Calls of the lazy getters, one after the other\<close>

datatype getter = GetDrawBufferContract | GetPrizeDistributionsBufferContract

fun runGetter :: "getter \<Rightarrow> world \<Rightarrow> PrizeDistributor \<Rightarrow> Contract promise" where
  "runGetter GetDrawBufferContract w this = getDrawBufferContract w this"
| "runGetter GetPrizeDistributionsBufferContract w this = getPrizeDistributionsBufferContract w this"

text \<open>
  A run in which every call of a getter is awaited before the next is made; the chain
  may answer each call differently. It gives the object at the end and all effects.
\<close>

fun callsInSequence :: "(getter \<times> world) list \<Rightarrow> PrizeDistributor \<Rightarrow> PrizeDistributor \<times> event list" where
  "callsInSequence [] this = (this, [])"
| "callsInSequence ((g, w) # calls) this =
     (case runGetter g w this of
        (r, evs) \<Rightarrow>
          (case callsInSequence calls (perform evs this) of
             (this', evs') \<Rightarrow> (this', evs @ evs')))"

text \<open>How often the effects assign the lazy fields of a key, and fetch its address.\<close>

definition writes :: "string \<Rightarrow> event list \<Rightarrow> nat" where
  "writes key evs = length (filter (\<lambda>e. case e of FieldsSet k _ _ \<Rightarrow> k = key | _ \<Rightarrow> False) evs)"

definition fetches :: "string \<Rightarrow> event list \<Rightarrow> nat" where
  "fetches key evs = length (filter (\<lambda>e. case e of AddressFetched k \<Rightarrow> k = key | _ \<Rightarrow> False) evs)"

section \<open>Contract Linker\<close>

text \<open>
  \<open>Object.keys\<close> of an object whose keys are chain ids, given the keys in the order
  they were added: the keys that are array indices (the integers from 0 to \<open>2^32 - 2\<close>)
  come first, in ascending order, and after them every other key in the order of its
  addition.
\<close>

definition isArrayIndex :: "int \<Rightarrow> bool" where
  "isArrayIndex k \<longleftrightarrow> 0 \<le> k \<and> k < 2 ^ 32 - 1"

definition Object_keys :: "int list \<Rightarrow> int list" where
  "Object_keys added =
     (let keys = rev (remdups (rev added))
      in sort (filter isArrayIndex keys) @ filter (\<lambda>k. \<not> isArrayIndex k) keys)"

text \<open>
  Modelled from the spec: \<open>sortContractsByChainId\<close> of \<open>utils/sortContractsByChainId\<close>,
  which is not among the sources. It groups the records by chain id in an object keyed by
  chain id, the key of a chain being added at the first record of that chain. The groups
  are listed in the order in which \<open>Object.keys(...).map(Number)\<close> lists the chain ids.
\<close>

definition sortContractsByChainId :: "ContractMetadata list \<Rightarrow> (int \<times> ContractMetadata list) list" where
  "sortContractsByChainId contracts =
     map (\<lambda>c. (c, filter (\<lambda>contract. chainId contract = c) contracts))
         (Object_keys (map chainId contracts))"

text \<open>\<open>signersOrProviders[chainId]\<close>.\<close>

definition providerFor :: "(int \<rightharpoonup> SignerOrProvider) \<Rightarrow> int \<Rightarrow> SignerOrProvider" where
  "providerFor signersOrProviders c = (case signersOrProviders c of None \<Rightarrow> NoProvider | Some sp \<Rightarrow> sp)"

text \<open>
  One multicall per chain, asking each distributor for its calculator; the answer maps
  each distributor address to \<open>{drawCalculator: address}\<close>.
\<close>

definition fetchClaimableDrawAddressesByChainId ::
  "world \<Rightarrow> int \<Rightarrow> SignerOrProvider \<Rightarrow> ContractMetadata list \<Rightarrow>
   error + int \<times> (string \<times> (string \<times> string) list) list" where
  "fetchClaimableDrawAddressesByChainId w chainId0 signerOrProvider0 prizeDistributorsContracts =
     (case batch w signerOrProvider0 prizeDistributorsContracts of
        Inl e \<Rightarrow> Inl e
      | Inr result \<Rightarrow>
          Inr (chainId0,
               map (\<lambda>(prizeDistributorsAddress, drawCalculator).
                      (prizeDistributorsAddress, [(''drawCalculator'', drawCalculator)])) result))"

text \<open>
  The \<open>forEach\<close> over the settled responses: a fulfilled one is pushed, the first rejected
  one throws \<open>new Error(response.reason)\<close>.
\<close>

fun collectFulfilled :: "(error + 'a) list \<Rightarrow> error + 'a list" where
  "collectFulfilled [] = Inr []"
| "collectFulfilled (response # responses) =
     (case response of
        Inl reason \<Rightarrow> Inl (Rethrown reason)
      | Inr v \<Rightarrow> (case collectFulfilled responses of Inl e \<Rightarrow> Inl e | Inr vs \<Rightarrow> Inr (v # vs)))"

definition pushIfFound :: "'a option \<Rightarrow> 'a list" where
  "pushIfFound m = (case m of None \<Rightarrow> [] | Some x \<Rightarrow> [x])"

text \<open>
  The body of the \<open>forEach\<close> that builds \<open>finalContractLists\<close>: the four contracts are
  matched by chain id alone. \<open>contractList[0].chainId\<close> of an empty list is a TypeError.
\<close>

definition withInjectedContracts :: "ContractMetadata list \<Rightarrow> ContractMetadata list \<Rightarrow> error + ContractMetadata list" where
  "withInjectedContracts contracts contractList =
     (case contractList of
        [] \<Rightarrow> Inl (TypeError ''contractList[0] is undefined'')
      | first # _ \<Rightarrow>
          (let chainId0 = chainId first;
               drawBufferMetadata =
                 find (\<lambda>contract. chainId contract = chainId0) (getContractsByType contracts DrawBuffer);
               prizeDistributionsMetadata =
                 find (\<lambda>contract. chainId contract = chainId0)
                   (getContractsByType contracts PrizeDistributionBuffer);
               ticketMetadata =
                 find (\<lambda>contract. chainId contract = chainId0) (getContractsByType contracts Ticket);
               drawCalculatorTimelockMetadata =
                 find (\<lambda>contract. chainId contract = chainId0)
                   (getContractsByType contracts DrawCalculatorTimelock)
           in Inr (contractList @ pushIfFound drawBufferMetadata @ pushIfFound prizeDistributionsMetadata @
                   pushIfFound ticketMetadata @ pushIfFound drawCalculatorTimelockMetadata)))"

text \<open>
  \<open>initializePrizeDistributors\<close>. The helpers \<open>extendContractWithChildren\<close> and
  \<open>sortContractsByContractTypeAndChildren\<close> are not among the sources and are parameters.
\<close>

definition initializePrizeDistributors ::
  "world \<Rightarrow>
   (ContractMetadata list \<Rightarrow> (int \<times> (string \<times> (string \<times> string) list) list) list \<Rightarrow> ContractType \<Rightarrow>
      ContractMetadata list) \<Rightarrow>
   (ContractMetadata list \<Rightarrow> ContractType \<Rightarrow> ContractMetadata list list) \<Rightarrow>
   (int \<rightharpoonup> SignerOrProvider) \<Rightarrow> ContractMetadata list \<Rightarrow> error + PrizeDistributor list" where
  "initializePrizeDistributors w extendContractWithChildren sortContractsByContractTypeAndChildren
       signersOrProviders contracts =
     (let prizeDistributorsContracts = getContractsByType contracts PrizeDistributor;
          prizeDistributorsContractsByChainId = sortContractsByChainId prizeDistributorsContracts;
          prizeDistributorsAddressesResponses =
            map (\<lambda>(chainId0, prizeDistributorsContracts0).
                   fetchClaimableDrawAddressesByChainId w chainId0
                     (providerFor signersOrProviders chainId0) prizeDistributorsContracts0)
                prizeDistributorsContractsByChainId
      in case collectFulfilled prizeDistributorsAddressesResponses of
           Inl e \<Rightarrow> Inl e
         | Inr prizeDistributorsAddressesByChainId \<Rightarrow>
             (let contractsWithChildren =
                    extendContractWithChildren contracts prizeDistributorsAddressesByChainId PrizeDistributor;
                  sortedContractLists =
                    sortContractsByContractTypeAndChildren contractsWithChildren PrizeDistributor
              in case mapE (withInjectedContracts contracts) sortedContractLists of
                   Inl e \<Rightarrow> Inl e
                 | Inr finalContractLists \<Rightarrow>
                     mapE (\<lambda>contractList.
                             case contractList of
                               [] \<Rightarrow> Inl (TypeError ''contractList[0] is undefined'')
                             | first # _ \<Rightarrow>
                                 newPrizeDistributor (providerFor signersOrProviders (chainId first))
                                   contractList)
                          finalContractLists))"

section \<open>An example deployment\<close>

text \<open>
  One chain with one contract of each type, a draw buffer holding the draws 2 to 10 and a
  prize-distribution buffer holding the distributions 5 to 8. The batched read of prize
  distributions rejects a list that asks for draw 3; the user \<open>0xZero\<close> has no balance.
\<close>

definition exampleMetadata :: "string \<Rightarrow> ContractType \<Rightarrow> ContractMetadata" where
  "exampleMetadata a t = \<lparr>chainId = 1, address = a, type' = t, abi = ''abi'', children = None\<rparr>"

definition exampleContracts :: "ContractMetadata list" where
  "exampleContracts =
     [exampleMetadata ''0xD1'' PrizeDistributor, exampleMetadata ''0xC1'' DrawCalculator,
      exampleMetadata ''0x71'' DrawCalculatorTimelock, exampleMetadata ''0xB1'' DrawBuffer,
      exampleMetadata ''0xB2'' PrizeDistributionBuffer, exampleMetadata ''0x7C'' Ticket]"

definition exampleContract :: "SignerOrProvider \<Rightarrow> string \<Rightarrow> Contract" where
  "exampleContract sp a = \<lparr>contract_address = a, contract_abi = ''abi'', contract_signerOrProvider = sp\<rparr>"

definition exampleDraw :: "int \<Rightarrow> Draw" where
  "exampleDraw i = \<lparr>drawId = i, timestamp = 1000 + i, winningRandomNumber = 7\<rparr>"

definition examplePrizeDistribution :: PrizeDistribution where
  "examplePrizeDistribution =
     \<lparr>matchCardinality = 10, numberOfPicks = 100, tiers = [1], bitRangeSize = 4, prize = 1000,
      drawStartTimestampOffset = 0, drawEndTimestampOffset = 0, maxPicksPerUser = 2\<rparr>"

text \<open>The prize distribution of a draw: the prize differs from draw to draw.\<close>

definition examplePrizeDistributionOf :: "int \<Rightarrow> PrizeDistribution" where
  "examplePrizeDistributionOf i = examplePrizeDistribution\<lparr>prize := 1000 * i\<rparr>"

definition exampleResults :: "int \<Rightarrow> int \<Rightarrow> jsobject" where
  "exampleResults i v =
     [''drawId'' \<mapsto> Plain (Number i), ''totalValue'' \<mapsto> Plain (BigNumber v), ''prizes'' \<mapsto> PrizeArray []]"

definition exampleClaim :: Claim where
  "exampleClaim = \<lparr>userAddress = ''0xA1'', drawIds = [6], encodedWinningPickIndices = ''0x00''\<rparr>"

definition exampleWorld :: world where
  "exampleWorld =
     \<lparr>functions_getDrawBuffer = (\<lambda>_. Inr ''0xB1''),
      functions_getPrizeDistributionBuffer = (\<lambda>_. Inr ''0xB2''),
      functions_getNewestDraw = (\<lambda>_. Inr (exampleDraw 10)),
      functions_getOldestDraw = (\<lambda>_. Inr (exampleDraw 2)),
      functions_getNewestPrizeDistribution = (\<lambda>_. Inr (examplePrizeDistribution, 8)),
      functions_getOldestPrizeDistribution = (\<lambda>_. Inr (examplePrizeDistribution, 5)),
      functions_getDraws = (\<lambda>_ ids. Inr (map exampleDraw ids)),
      functions_getPrizeDistributions =
        (\<lambda>_ ids. if 3 \<in> set ids then Inl (CallError ''prize distribution 3 is not set'')
                 else Inr (map examplePrizeDistributionOf ids)),
      functions_getPrizeDistribution = (\<lambda>_ _. Inr examplePrizeDistribution),
      functions_getNormalizedBalancesForDrawIds =
        (\<lambda>_ user ids. Inr (map (\<lambda>_. if user = ''0xZero'' then 0 else 5) ids)),
      contract_claim = (\<lambda>_ _ _ _ _. Inr ''0xTX''),
      calculateDrawResults = (\<lambda>_ draw _. Inr (exampleResults (drawId draw) 40)),
      prepareClaims = (\<lambda>_ _. Inr exampleClaim),
      batch = (\<lambda>sp cs. case sp of NoProvider \<Rightarrow> Inl (CallError ''no provider'')
                        | _ \<Rightarrow> Inr (map (\<lambda>c. (address c, ''0xC1'')) cs))\<rparr>"

text \<open>The facade the constructor builds from the example contracts.\<close>

definition exampleFacade :: "SignerOrProvider \<Rightarrow> PrizeDistributor" where
  "exampleFacade sp =
     \<lparr>signerOrProvider = sp,
      contractMetadataList = exampleContracts,
      this_chainId = 1,
      this_address = ''0xD1'',
      prizeDistributorsMetadata = exampleMetadata ''0xD1'' PrizeDistributor,
      drawCalculatorMetadata = exampleMetadata ''0xC1'' DrawCalculator,
      drawCalculatorTimelockMetadata = exampleMetadata ''0x71'' DrawCalculatorTimelock,
      drawBuffer = None,
      prizeDistributionsBuffer = None,
      prizeDistributorsContract = exampleContract sp ''0xD1'',
      drawCalculatorContract = exampleContract sp ''0xC1'',
      drawCalculatorTimelockContract = exampleContract sp ''0x71'',
      drawBufferContract = None,
      prizeDistributionsBufferContract = None\<rparr>"

definition exampleSigner :: "int \<Rightarrow> SignerOrProvider" where
  "exampleSigner chain = Signer \<lparr>signer_getAddress = Inr ''0xA1'', signer_getChainId = Inr chain\<rparr>"

text \<open>An instance of \<open>BigNumber.from\<close> that returns a BigNumber as it is and takes nothing else.\<close>

definition BigNumber_only :: "jsval \<Rightarrow> error + jsval" where
  "BigNumber_only v =
     (case v of BigNumber b \<Rightarrow> Inr (BigNumber b) | _ \<Rightarrow> Inl (TypeError ''invalid BigNumber value''))"

text \<open>
  An instance of \<open>BigNumber.from\<close> that, as that of ethers, also takes a number that is a
  safe integer.
\<close>

definition BigNumber_ethers :: "jsval \<Rightarrow> error + jsval" where
  "BigNumber_ethers v =
     (case v of
        BigNumber b \<Rightarrow> Inr (BigNumber b)
      | Number n \<Rightarrow> (if \<bar>n\<bar> < 2 ^ 53 then Inr (BigNumber n) else Inl (CallError ''overflow''))
      | _ \<Rightarrow> Inl (TypeError ''invalid BigNumber value''))"

text \<open>The prize of the spec's example in both shapes, and wrappers around it.\<close>

definition legacyPrize3 :: prize where
  "legacyPrize3 = [''distributionIndex'' \<mapsto> Number 3, ''amount'' \<mapsto> BigNumber 100, ''pick'' \<mapsto> BigNumber 5]"

definition canonicalPrize3 :: prize where
  "canonicalPrize3 = [''amount'' \<mapsto> BigNumber 100, ''tierIndex'' \<mapsto> Number 3, ''pick'' \<mapsto> BigNumber 5]"

definition legacyResults :: jsobject where
  "legacyResults =
     [''drawId'' \<mapsto> Plain (Number 7), ''totalValue'' \<mapsto> Plain (BigNumber 100),
      ''prizes'' \<mapsto> PrizeArray [legacyPrize3]]"

definition canonicalResults :: jsobject where
  "canonicalResults =
     [''drawId'' \<mapsto> Plain (Number 7), ''totalValue'' \<mapsto> Plain (BigNumber 100),
      ''prizes'' \<mapsto> PrizeArray [canonicalPrize3]]"

text \<open>
  The legacy prize of the example with one field more, \<open>note\<close>, and the same prize with
  its amount as a number; a wrapper around each.
\<close>

definition notedPrize3 :: prize where
  "notedPrize3 = legacyPrize3(''note'' \<mapsto> String ''bonus'')"

definition numberPrize3 :: prize where
  "numberPrize3 = legacyPrize3(''amount'' \<mapsto> Number 100)"

definition notedResults :: jsobject where
  "notedResults =
     [''drawId'' \<mapsto> Plain (Number 7), ''totalValue'' \<mapsto> Plain (BigNumber 100),
      ''prizes'' \<mapsto> PrizeArray [notedPrize3]]"

definition numberResults :: jsobject where
  "numberResults =
     [''drawId'' \<mapsto> Plain (Number 7), ''totalValue'' \<mapsto> Plain (BigNumber 100),
      ''prizes'' \<mapsto> PrizeArray [numberPrize3]]"

definition extendedLegacy :: jsobject where
  "extendedLegacy =
     [''usersAddress'' \<mapsto> Plain (String ''0xA1''), ''drawId'' \<mapsto> Plain (Number 7),
      ''totalValue'' \<mapsto> Plain (BigNumber 100), ''prizes'' \<mapsto> PrizeArray [legacyPrize3]]"



text \<open>The example facade once both lazy handles are resolved.\<close>

definition exampleLinked :: "SignerOrProvider \<Rightarrow> PrizeDistributor" where
  "exampleLinked sp =
     (exampleFacade sp)
       \<lparr>drawBuffer := Some (exampleMetadata ''0xB1'' DrawBuffer),
        prizeDistributionsBuffer := Some (exampleMetadata ''0xB2'' PrizeDistributionBuffer),
        drawBufferContract := Some (exampleContract sp ''0xB1''),
        prizeDistributionsBufferContract := Some (exampleContract sp ''0xB2'')\<rparr>"

text \<open>A second chain, 5, with a distributor of its own, and providers for chain 1 alone.\<close>

definition twoChainContracts :: "ContractMetadata list" where
  "twoChainContracts =
     exampleContracts @
     [\<lparr>chainId = 5, address = ''0xD5'', type' = PrizeDistributor, abi = ''abi'', children = None\<rparr>]"

definition chainOneOnly :: "int \<rightharpoonup> SignerOrProvider" where
  "chainOneOnly = [1 \<mapsto> Provider ''rpc'']"

text \<open>
  The example chain with buffers that do not overlap (draws 2 to 4, prize distributions 6
  to 9), and with a draw buffer that holds no draw yet.
\<close>

definition disjointWorld :: world where
  "disjointWorld =
     exampleWorld
       \<lparr>functions_getNewestDraw := (\<lambda>_. Inr (exampleDraw 4)),
        functions_getNewestPrizeDistribution := (\<lambda>_. Inr (examplePrizeDistribution, 9)),
        functions_getOldestPrizeDistribution := (\<lambda>_. Inr (examplePrizeDistribution, 6))\<rparr>"

definition emptyDrawBufferWorld :: world where
  "emptyDrawBufferWorld =
     exampleWorld
       \<lparr>functions_getNewestDraw := (\<lambda>_. Inl (CallError ''no draw'')),
        functions_getOldestDraw := (\<lambda>_. Inl (CallError ''no draw''))\<rparr>"

section \<open>Lemmas\<close>

subsection \<open>The Legacy Normalizer\<close>

lemma mapE_Inr_map: "(\<And>x. x \<in> set xs \<Longrightarrow> f x = Inr (g x)) \<Longrightarrow> mapE f xs = Inr (map g xs)"
  by (induction xs) auto








lemma prizesOf_Some: "prizesOf r = Some ps \<longleftrightarrow> r ''prizes'' = Some (PrizeArray ps)"
  by (auto simp: prizesOf_def split: option.splits member.splits)

lemma extended_unfold:
  "prizesOf r = Some ps \<Longrightarrow>
   formatDrawResultsFromLegacyDrawResults_extended r =
     Inr (r(''prizes'' \<mapsto> PrizeArray (map normalizePrize ps)))"
  by (simp add: prizesOf_Some formatDrawResultsFromLegacyDrawResults_extended_def)




text \<open>
  Whatever the input, a converted prize has the fields \<open>amount\<close>, \<open>tierIndex\<close> and \<open>pick\<close>
  and no other, and the converted wrapper the fields \<open>drawId\<close>, \<open>totalValue\<close> and \<open>prizes\<close>
  and no other.
\<close>
lemma formatPrize_fields:
  "formatPrize BigNumber_from p = Inr q \<Longrightarrow> dom q = {''amount'', ''tierIndex'', ''pick''}"
  by (auto simp: formatPrize_def split: sum.splits if_splits)

lemma formatDrawResults_fields:
  "formatDrawResultsFromLegacyDrawResults BigNumber_from r = Inr r' \<Longrightarrow>
   dom r' = {''drawId'', ''totalValue'', ''prizes''}"
  by (auto simp: formatDrawResultsFromLegacyDrawResults_def
      split: option.splits member.splits sum.splits if_splits)

text \<open>
  The draw-results conversion on any input: what it returns when it returns, when it
  returns, and what it returns when amount and pick are BigNumbers already.
\<close>
lemma mapE_Inr_D: "mapE f xs = Inr ys \<Longrightarrow> list_all2 (\<lambda>x y. f x = Inr y) xs ys"
  by (induction xs arbitrary: ys) (auto split: sum.splits)

lemma mapE_returns_iff: "(\<exists>ys. mapE f xs = Inr ys) \<longleftrightarrow> (\<forall>x \<in> set xs. \<not> isl (f x))"
  by (induction xs) (auto split: sum.splits)

lemma formatPrize_Inr_iff:
  "formatPrize BigNumber_from p = Inr q \<longleftrightarrow>
     (\<exists>amount pick.
        BigNumber_from (readField p ''amount'') = Inr amount \<and>
        BigNumber_from (readField p ''pick'') = Inr pick \<and>
        q = [''amount'' \<mapsto> amount, ''tierIndex'' \<mapsto> tierIndexOf p, ''pick'' \<mapsto> pick])"
proof (cases "BigNumber_from (readField p ''amount'')")
  case (Inl e)
  then show ?thesis
    by (simp add: formatPrize_def)
next
  case a: (Inr amount)
  show ?thesis
  proof (cases "BigNumber_from (readField p ''pick'')")
    case (Inl e)
    with a show ?thesis
      by (simp add: formatPrize_def)
  next
    case (Inr pick)
    with a have "formatPrize BigNumber_from p =
        Inr [''amount'' \<mapsto> amount, ''tierIndex'' \<mapsto> tierIndexOf p, ''pick'' \<mapsto> pick]"
      by (simp add: formatPrize_def)
    with a Inr show ?thesis
      by (simp only: sum.inject) blast
  qed
qed

lemma formatPrize_returns_iff:
  "\<not> isl (formatPrize BigNumber_from p) \<longleftrightarrow>
     \<not> isl (BigNumber_from (readField p ''amount'')) \<and> \<not> isl (BigNumber_from (readField p ''pick''))"
  by (auto simp: formatPrize_def split: sum.splits)

lemma tierIndexOf_case:
  "tierIndexOf p = (case p ''distributionIndex'' of Some t \<Rightarrow> t | None \<Rightarrow> readField p ''tierIndex'')"
  by (simp add: tierIndexOf_def readField_def split: option.splits)

lemma formatPrize_rebuilt:
  assumes "formatPrize BigNumber_from p = Inr q"
  shows "dom q = {''amount'', ''tierIndex'', ''pick''} \<and>
         BigNumber_from (readField p ''amount'') = Inr (the (q ''amount'')) \<and>
         BigNumber_from (readField p ''pick'') = Inr (the (q ''pick'')) \<and>
         q ''tierIndex'' =
           Some (case p ''distributionIndex'' of Some t \<Rightarrow> t | None \<Rightarrow> readField p ''tierIndex'')"
proof -
  from assms obtain amount pick where
    a: "BigNumber_from (readField p ''amount'') = Inr amount"
    and k: "BigNumber_from (readField p ''pick'') = Inr pick"
    and q: "q = [''amount'' \<mapsto> amount, ''tierIndex'' \<mapsto> tierIndexOf p, ''pick'' \<mapsto> pick]"
    unfolding formatPrize_Inr_iff by blast
  have "dom q = {''amount'', ''tierIndex'', ''pick''}"
    using assms by (rule formatPrize_fields)
  moreover have "q ''amount'' = Some amount" "q ''pick'' = Some pick" "q ''tierIndex'' = Some (tierIndexOf p)"
    unfolding q by simp_all
  ultimately show ?thesis
    using a k by (simp add: tierIndexOf_case)
qed

lemma formatDrawResults_Inr_iff:
  assumes "prizesOf r = Some ps"
  shows "formatDrawResultsFromLegacyDrawResults BigNumber_from r = Inr r' \<longleftrightarrow>
         (\<exists>qs. mapE (formatPrize BigNumber_from) ps = Inr qs \<and>
               r' = [''drawId'' \<mapsto> readMember r ''drawId'',
                     ''totalValue'' \<mapsto> readMember r ''totalValue'',
                     ''prizes'' \<mapsto> PrizeArray qs])"
proof (cases "mapE (formatPrize BigNumber_from) ps")
  case (Inl e)
  with assms show ?thesis
    by (simp add: prizesOf_Some formatDrawResultsFromLegacyDrawResults_def)
next
  case (Inr qs)
  with assms have "formatDrawResultsFromLegacyDrawResults BigNumber_from r =
      Inr [''drawId'' \<mapsto> readMember r ''drawId'',
           ''totalValue'' \<mapsto> readMember r ''totalValue'',
           ''prizes'' \<mapsto> PrizeArray qs]"
    by (simp add: prizesOf_Some formatDrawResultsFromLegacyDrawResults_def)
  with Inr show ?thesis
    by (simp only: sum.inject) blast
qed

lemma formatDrawResults_returned:
  assumes ps: "prizesOf r = Some ps"
    and res: "formatDrawResultsFromLegacyDrawResults BigNumber_from r = Inr r'"
  shows "dom r' = {''drawId'', ''totalValue'', ''prizes''} \<and>
       r' ''drawId'' = Some (readMember r ''drawId'') \<and>
       r' ''totalValue'' = Some (readMember r ''totalValue'') \<and>
       (\<exists>qs. r' ''prizes'' = Some (PrizeArray qs) \<and>
          list_all2 (\<lambda>p q.
              dom q = {''amount'', ''tierIndex'', ''pick''} \<and>
              BigNumber_from (readField p ''amount'') = Inr (the (q ''amount'')) \<and>
              BigNumber_from (readField p ''pick'') = Inr (the (q ''pick'')) \<and>
              q ''tierIndex'' =
                Some (case p ''distributionIndex'' of Some t \<Rightarrow> t | None \<Rightarrow> readField p ''tierIndex''))
            ps qs)"
proof -
  from res obtain qs where m: "mapE (formatPrize BigNumber_from) ps = Inr qs"
    and r': "r' = [''drawId'' \<mapsto> readMember r ''drawId'',
                     ''totalValue'' \<mapsto> readMember r ''totalValue'',
                     ''prizes'' \<mapsto> PrizeArray qs]"
    unfolding formatDrawResults_Inr_iff [OF ps] by blast
  from m have "list_all2 (\<lambda>p q. formatPrize BigNumber_from p = Inr q) ps qs"
    by (rule mapE_Inr_D)
  then have "list_all2 (\<lambda>p q.
              dom q = {''amount'', ''tierIndex'', ''pick''} \<and>
              BigNumber_from (readField p ''amount'') = Inr (the (q ''amount'')) \<and>
              BigNumber_from (readField p ''pick'') = Inr (the (q ''pick'')) \<and>
              q ''tierIndex'' =
                Some (case p ''distributionIndex'' of Some t \<Rightarrow> t | None \<Rightarrow> readField p ''tierIndex''))
            ps qs"
    by (rule list_all2_mono) (rule formatPrize_rebuilt)
  moreover have "dom r' = {''drawId'', ''totalValue'', ''prizes''}"
    using res by (rule formatDrawResults_fields)
  moreover have "r' ''drawId'' = Some (readMember r ''drawId'')"
    "r' ''totalValue'' = Some (readMember r ''totalValue'')" "r' ''prizes'' = Some (PrizeArray qs)"
    unfolding r' by simp_all
  ultimately show ?thesis
    by blast
qed

lemma formatDrawResults_returns_iff:
  assumes ps: "prizesOf r = Some ps"
  shows "(\<exists>r'. formatDrawResultsFromLegacyDrawResults BigNumber_from r = Inr r') \<longleftrightarrow>
         (\<forall>p \<in> set ps. \<not> isl (BigNumber_from (readField p ''amount'')) \<and>
                       \<not> isl (BigNumber_from (readField p ''pick'')))"
proof -
  have "(\<exists>r'. formatDrawResultsFromLegacyDrawResults BigNumber_from r = Inr r') \<longleftrightarrow>
        (\<exists>qs. mapE (formatPrize BigNumber_from) ps = Inr qs)"
    unfolding formatDrawResults_Inr_iff [OF ps] by blast
  then show ?thesis
    by (simp add: mapE_returns_iff formatPrize_returns_iff)
qed

lemma formatDrawResults_big:
  assumes ps: "prizesOf r = Some ps"
    and big: "\<forall>b. BigNumber_from (BigNumber b) = Inr (BigNumber b)"
    and all: "list_all (\<lambda>p. isBigNumber (p ''amount'') \<and> isBigNumber (p ''pick'')) ps"
  shows "formatDrawResultsFromLegacyDrawResults BigNumber_from r =
           Inr [''drawId'' \<mapsto> readMember r ''drawId'',
                ''totalValue'' \<mapsto> readMember r ''totalValue'',
                ''prizes'' \<mapsto>
                  PrizeArray
                    (map (\<lambda>p. [''amount'' \<mapsto> the (p ''amount''),
                               ''tierIndex'' \<mapsto>
                                 (case p ''distributionIndex'' of Some t \<Rightarrow> t
                                  | None \<Rightarrow> readField p ''tierIndex''),
                               ''pick'' \<mapsto> the (p ''pick'')]) ps)]"
proof -
  have "formatPrize BigNumber_from p =
          Inr [''amount'' \<mapsto> the (p ''amount''),
               ''tierIndex'' \<mapsto>
                 (case p ''distributionIndex'' of Some t \<Rightarrow> t | None \<Rightarrow> readField p ''tierIndex''),
               ''pick'' \<mapsto> the (p ''pick'')]" if "p \<in> set ps" for p
  proof -
    from that all have "isBigNumber (p ''amount'')" "isBigNumber (p ''pick'')"
      by (simp_all add: list_all_iff)
    then obtain a k where "p ''amount'' = Some (BigNumber a)" "p ''pick'' = Some (BigNumber k)"
      by (auto simp: isBigNumber_def split: option.splits jsval.splits)
    with big show ?thesis
      by (simp add: formatPrize_def readField_def tierIndexOf_case)
  qed
  then have "mapE (formatPrize BigNumber_from) ps =
       Inr (map (\<lambda>p. [''amount'' \<mapsto> the (p ''amount''),
                               ''tierIndex'' \<mapsto>
                                 (case p ''distributionIndex'' of Some t \<Rightarrow> t
                                  | None \<Rightarrow> readField p ''tierIndex''),
                               ''pick'' \<mapsto> the (p ''pick'')]) ps)"
    by (rule mapE_Inr_map)
  with ps show ?thesis
    by (simp add: prizesOf_Some formatDrawResultsFromLegacyDrawResults_def)
qed

subsection \<open>The Range Reconciler and the paired fetch\<close>

declare pushRange.simps [simp del]

declare getDrawsAndPrizeDistributions.simps [simp del]

lemma pushRange_upto: "pushRange i newestId ids = ids @ [i..newestId]"
proof (induction i newestId ids rule: pushRange.induct)
  case (1 i newestId ids)
  show ?case
  proof (cases "i \<le> newestId")
    case True
    then have "pushRange i newestId ids = pushRange (i + 1) newestId (ids @ [i])"
      by (simp add: pushRange.simps [of i])
    also have "\<dots> = (ids @ [i]) @ [i + 1..newestId]"
      using True by (rule "1.IH")
    also have "\<dots> = ids @ [i..newestId]"
      using True by (simp add: upto_rec1)
    finally show ?thesis .
  next
    case False
    then show ?thesis
      by (simp add: pushRange.simps [of i])
  qed
qed

lemma getDraws_Nil: "getDraws w this [] = (Inr [], [])"
  by (simp add: getDraws_def)

lemma getPrizeDistributions_Nil: "getPrizeDistributions w this [] = (Inr [], [])"
  by (simp add: getPrizeDistributions_def)

lemma not_fetchFails_Nil: "\<not> fetchFails w this []"
  by (simp add: fetchFails_def getDraws_Nil getPrizeDistributions_Nil)

lemma pairUp_Nil: "pairUp [] prizeDistributions = []"
  by (simp add: pairUp_def)

lemma length_pairUp: "length (pairUp draws prizeDistributions) = length draws"
  by (simp add: pairUp_def)

lemma getDrawsAndPrizeDistributions_retry:
  "fetchFails w this ids \<Longrightarrow>
   fst (getDrawsAndPrizeDistributions w this ids) =
   fst (getDrawsAndPrizeDistributions w
          (perform (snd (getDraws w this ids) @ snd (getPrizeDistributions w this ids)) this)
          (dropLargest ids))"
  by (subst getDrawsAndPrizeDistributions.simps) (simp add: fetchFails_def Let_def split: prod.splits)

lemma getDrawsAndPrizeDistributions_done:
  "\<not> fetchFails w this ids \<Longrightarrow>
   getDrawsAndPrizeDistributions w this ids =
     (pairUp (projr (fst (getDraws w this ids))) (projr (fst (getPrizeDistributions w this ids))),
      snd (getDraws w this ids) @ snd (getPrizeDistributions w this ids))"
  by (subst getDrawsAndPrizeDistributions.simps) (simp add: fetchFails_def Let_def)

lemma sorted_last_Max:
  fixes xs :: "int list"
  assumes "sorted xs" and "xs \<noteq> []"
  shows "last xs = Max (set xs)"
proof -
  from assms(2) have split: "xs = butlast xs @ [last xs]"
    by simp
  with assms(1) have "sorted (butlast xs @ [last xs])"
    by simp
  then have "\<forall>y \<in> set (butlast xs). y \<le> last xs"
    by (simp add: sorted_append)
  moreover have "set xs = insert (last xs) (set (butlast xs))"
    by (subst split) simp
  ultimately have "\<forall>y \<in> set xs. y \<le> last xs"
    by auto
  moreover from assms(2) have "last xs \<in> set xs"
    by simp
  ultimately show ?thesis
    by (intro Max_eqI [symmetric]) auto
qed

lemma sort_dropLargest:
  assumes "ids \<noteq> []"
  shows "sort ids = dropLargest ids @ [Max (set ids)]"
proof -
  from assms have ne: "sort ids \<noteq> []"
    by (metis length_0_conv length_sort)
  have "dropLargest ids = butlast (sort ids)"
    by (simp add: dropLargest_def butlast_conv_take)
  moreover have "last (sort ids) = Max (set ids)"
    using sorted_last_Max [OF sorted_sort ne] by simp
  moreover from ne have "sort ids = butlast (sort ids) @ [last (sort ids)]"
    by simp
  ultimately show ?thesis
    by simp
qed

lemma fetchFails_nonempty: "fetchFails w this ids \<Longrightarrow> ids \<noteq> []"
  using not_fetchFails_Nil by blast

lemma length_dropLargest: "length (dropLargest ids) = length ids - 1"
  by (simp add: dropLargest_def)

lemma paired_fetch_ends:
  "\<exists>this' ids'.
     (retry w)\<^sup>*\<^sup>* (this, ids) (this', ids') \<and> \<not> fetchFails w this' ids' \<and>
     length ids' \<le> length ids \<and>
     fst (getDrawsAndPrizeDistributions w this ids) =
       pairUp (projr (fst (getDraws w this' ids'))) (projr (fst (getPrizeDistributions w this' ids')))"
proof (induction w this ids rule: getDrawsAndPrizeDistributions.induct)
  case (1 w this ids)
  show ?case
  proof (cases "fetchFails w this ids")
    case True
    define this1 where
      "this1 = perform (snd (getDraws w this ids) @ snd (getPrizeDistributions w this ids)) this"
    from True have step: "retry w (this, ids) (this1, dropLargest ids)"
      by (simp add: retry_def this1_def)
    from True have "isl (fst (getDraws w this ids)) \<or> isl (fst (getPrizeDistributions w this ids))"
      by (simp add: fetchFails_def)
    from "1.IH" [OF refl refl refl this]
    obtain this' ids' where chain: "(retry w)\<^sup>*\<^sup>* (this1, dropLargest ids) (this', ids')"
      and ok: "\<not> fetchFails w this' ids'"
      and len: "length ids' \<le> length (dropLargest ids)"
      and res: "fst (getDrawsAndPrizeDistributions w this1 (dropLargest ids)) =
                  pairUp (projr (fst (getDraws w this' ids')))
                         (projr (fst (getPrizeDistributions w this' ids')))"
      unfolding this1_def by blast
    from step chain have "(retry w)\<^sup>*\<^sup>* (this, ids) (this', ids')"
      by (rule converse_rtranclp_into_rtranclp)
    moreover from len have "length ids' \<le> length ids"
      by (simp add: length_dropLargest)
    moreover have "fst (getDrawsAndPrizeDistributions w this ids) =
                     pairUp (projr (fst (getDraws w this' ids')))
                            (projr (fst (getPrizeDistributions w this' ids')))"
      using getDrawsAndPrizeDistributions_retry [OF True] res by (simp add: this1_def)
    ultimately show ?thesis
      using ok by blast
  next
    case False
    then have "fst (getDrawsAndPrizeDistributions w this ids) =
                 pairUp (projr (fst (getDraws w this ids)))
                        (projr (fst (getPrizeDistributions w this ids)))"
      by (simp add: getDrawsAndPrizeDistributions_done)
    with False show ?thesis
      by blast
  qed
qed

lemma copyDraw_id: "copyDraw d = d"
  by (cases d) (simp add: copyDraw_def)

lemma copyPrizeDistribution_id: "copyPrizeDistribution d = d"
  by (cases d) (simp add: copyPrizeDistribution_def)

lemma map_copyDraw: "map copyDraw ds = ds"
  by (induction ds) (simp_all add: copyDraw_id)

lemma map_copyPrizeDistribution: "map copyPrizeDistribution ps = ps"
  by (induction ps) (simp_all add: copyPrizeDistribution_id)

lemma pairUp_nth:
  "i < length draws \<Longrightarrow>
   pairUp draws prizeDistributions ! i =
     (draws ! i, if i < length prizeDistributions then Some (prizeDistributions ! i) else None)"
  by (simp add: pairUp_def nth_enumerate_eq)

text \<open>A fulfilled batched read of a list that is not empty holds what the chain answered.\<close>

lemma getDraws_fulfilled:
  assumes ok: "fst (getDraws w this ids) = Inr ds"
    and ne: "ids \<noteq> []"
  shows "\<exists>c. fst (getDrawBufferContract w this) = Inr c \<and> functions_getDraws w c ids = Inr ds"
proof -
  obtain r evs where c: "getDrawBufferContract w this = (r, evs)"
    by (cases "getDrawBufferContract w this")
  show ?thesis
  proof (cases r)
    case (Inl e)
    with ok ne c show ?thesis
      by (simp add: getDraws_def await_def)
  next
    case (Inr handle)
    show ?thesis
    proof (cases "functions_getDraws w handle ids")
      case (Inl e)
      with ok ne c Inr show ?thesis
        by (simp add: getDraws_def await_def call_def)
    next
      case answer: (Inr response)
      with ok ne c Inr have "response = ds"
        by (simp add: getDraws_def await_def call_def map_copyDraw)
      with c Inr answer show ?thesis
        by simp
    qed
  qed
qed

lemma getPrizeDistributions_fulfilled:
  assumes ok: "fst (getPrizeDistributions w this ids) = Inr ps"
    and ne: "ids \<noteq> []"
  shows "\<exists>c. fst (getPrizeDistributionsBufferContract w this) = Inr c \<and>
             functions_getPrizeDistributions w c ids = Inr ps"
proof -
  obtain r evs where c: "getPrizeDistributionsBufferContract w this = (r, evs)"
    by (cases "getPrizeDistributionsBufferContract w this")
  show ?thesis
  proof (cases r)
    case (Inl e)
    with ok ne c show ?thesis
      by (simp add: getPrizeDistributions_def await_def)
  next
    case (Inr handle)
    show ?thesis
    proof (cases "functions_getPrizeDistributions w handle ids")
      case (Inl e)
      with ok ne c Inr show ?thesis
        by (simp add: getPrizeDistributions_def await_def call_def)
    next
      case answer: (Inr response)
      with ok ne c Inr have "response = ps"
        by (simp add: getPrizeDistributions_def await_def call_def map_copyPrizeDistribution)
      with c Inr answer show ?thesis
        by simp
    qed
  qed
qed

lemma fst_await:
  "fst (await p k) = (case fst p of Inl e \<Rightarrow> Inl e | Inr x \<Rightarrow> fst (k x))"
  by (cases p) (auto simp: await_def split: sum.splits prod.splits)

lemma cached_getDrawBufferContract:
  "drawBufferContract this = Some c \<Longrightarrow> getDrawBufferContract w this = (Inr c, [])"
  by (simp add: getDrawBufferContract_def getAndSetEthersContract_def getAndSetEthersContract_start_def
      getAndSetEthersContract_resume_def contractField_def)

lemma cached_getPrizeDistributionsBufferContract:
  "prizeDistributionsBufferContract this = Some c \<Longrightarrow>
   getPrizeDistributionsBufferContract w this = (Inr c, [])"
  by (simp add: getPrizeDistributionsBufferContract_def getAndSetEthersContract_def getAndSetEthersContract_start_def
      getAndSetEthersContract_resume_def contractField_def)

subsection \<open>The Distributor Facade and the Contract Linker\<close>

lemma getAndSetEthersContract_no_other_effect:
  "e \<in> set (snd (getAndSetEthersContract key ty f this)) \<Longrightarrow>
   e = AddressFetched key \<or> (\<exists>a. e = Resolved ty a) \<or> (\<exists>m c. e = FieldsSet key m c)"
  by (auto simp: getAndSetEthersContract_def getAndSetEthersContract_start_def
      getAndSetEthersContract_resume_def Let_def split: option.splits sum.splits prod.splits)

lemma getPrizeDistribution_not_Calculated:
  "Calculated \<notin> set (snd (getPrizeDistribution w this i))"
proof
  assume "Calculated \<in> set (snd (getPrizeDistribution w this i))"
  then have "Calculated \<in> set (snd (getPrizeDistributionsBufferContract w this))"
    by (auto simp: getPrizeDistribution_def await_def call_def split: prod.splits sum.splits)
  then show False
    unfolding getPrizeDistributionsBufferContract_def
    by (auto dest: getAndSetEthersContract_no_other_effect)
qed

lemma claim_zero_no_effect:
  assumes "drawResults ''totalValue'' = Some (Plain (BigNumber 0))"
  shows "isl (fst (claimPrizesByDrawResults w this drawResults)) \<and>
         snd (claimPrizesByDrawResults w this drawResults) = []"
  using assms
  by (auto simp: claimPrizesByDrawResults_def getUsersAddress_def await_def call_def readMember_def
      Let_def split: sum.splits prod.splits)

lemma writes_Nil: "writes key [] = 0"
  by (simp add: writes_def)

lemma writes_append: "writes key (evs @ evs') = writes key evs + writes key evs'"
  by (simp add: writes_def)

lemma perform_no_FieldsSet:
  "(\<forall>k m c. FieldsSet k m c \<notin> set evs) \<Longrightarrow> perform evs this = this"
proof (induction evs arbitrary: this)
  case Nil
  then show ?case by simp
next
  case (Cons e evs)
  then show ?case by (cases e) auto
qed

text \<open>The three ways a call of a lazy getter can go.\<close>
lemma getAndSetEthersContract_cases:
  obtains (cached) c where "contractField (key @ ''Contract'') this = Some c"
      and "getAndSetEthersContract key ty f this = (Inr c, [])"
  | (failed) e evs where "contractField (key @ ''Contract'') this = None"
      and "getAndSetEthersContract key ty f this = (Inl e, evs)"
      and "\<forall>k m c. FieldsSet k m c \<notin> set evs"
  | (resolved) a m c where "contractField (key @ ''Contract'') this = None"
      and "getAndSetEthersContract key ty f this =
             (Inr c, [AddressFetched key, Resolved ty a, FieldsSet key m c])"
proof (cases "contractField (key @ ''Contract'') this")
  case (Some c)
  then show ?thesis
    by (intro cached [of c]) (simp_all add: getAndSetEthersContract_def getAndSetEthersContract_start_def
      getAndSetEthersContract_resume_def)
next
  case None
  show ?thesis
  proof (cases "f ()")
    case (Inl e)
    with None show ?thesis
      by (intro failed [of e "[AddressFetched key]"]) (simp_all add: getAndSetEthersContract_def getAndSetEthersContract_start_def
      getAndSetEthersContract_resume_def)
  next
    case (Inr a)
    show ?thesis
    proof (cases "getMetadataAndContract (signerOrProvider this) ty (contractMetadataList this) (Some a)")
      case inl: (Inl e)
      with None Inr show ?thesis
        by (intro failed [of e "[AddressFetched key, Resolved ty a]"])
           (simp_all add: getAndSetEthersContract_def getAndSetEthersContract_start_def
      getAndSetEthersContract_resume_def)
    next
      case inr: (Inr mc)
      obtain m c where "mc = (m, c)"
        by (cases mc)
      with None Inr inr show ?thesis
        by (intro resolved [of c a m]) (simp_all add: getAndSetEthersContract_def getAndSetEthersContract_start_def
      getAndSetEthersContract_resume_def)
    qed
  qed
qed

lemma setFields_drawBuffer:
  "drawBufferContract (setFields ''drawBuffer'' m c this) = Some c"
  "prizeDistributionsBufferContract (setFields ''drawBuffer'' m c this) = prizeDistributionsBufferContract this"
  by (simp_all add: setFields_def)

lemma setFields_prizeDistributionsBuffer:
  "prizeDistributionsBufferContract (setFields ''prizeDistributionsBuffer'' m c this) = Some c"
  "drawBufferContract (setFields ''prizeDistributionsBuffer'' m c this) = drawBufferContract this"
  by (simp_all add: setFields_def)

lemma contractField_lazy:
  "contractField ''drawBufferContract'' this = drawBufferContract this"
  "contractField ''prizeDistributionsBufferContract'' this = prizeDistributionsBufferContract this"
  by (simp_all add: contractField_def)

text \<open>
  In a run of calls made one after the other, the fields of a key are assigned once when
  they are unset at the start and the run resolves them, and never otherwise.
\<close>
lemma callsInSequence_Cons:
  "snd (callsInSequence ((g, w) # calls) this) =
     snd (runGetter g w this) @ snd (callsInSequence calls (perform (snd (runGetter g w this)) this))"
  by (cases "runGetter g w this"; cases "callsInSequence calls (perform (snd (runGetter g w this)) this)")
     simp

lemma callsInSequence_writes:
  "writes ''drawBuffer'' (snd (callsInSequence calls this)) \<le>
     (if drawBufferContract this = None then 1 else 0) \<and>
   writes ''prizeDistributionsBuffer'' (snd (callsInSequence calls this)) \<le>
     (if prizeDistributionsBufferContract this = None then 1 else 0)"
proof (induction calls arbitrary: this)
  case Nil
  then show ?case by (simp add: writes_Nil)
next
  case (Cons gw calls)
  obtain g w where gw: "gw = (g, w)"
    by (cases gw)
  define evs where "evs = snd (runGetter g w this)"
  have unfold: "snd (callsInSequence (gw # calls) this) = evs @ snd (callsInSequence calls (perform evs this))"
    unfolding gw evs_def by (rule callsInSequence_Cons)
  consider
    (none) "perform evs this = this" "writes ''drawBuffer'' evs = 0"
      "writes ''prizeDistributionsBuffer'' evs = 0"
  | (drawBuffer) m c where "drawBufferContract this = None" "perform evs this = setFields ''drawBuffer'' m c this"
      "writes ''drawBuffer'' evs = 1" "writes ''prizeDistributionsBuffer'' evs = 0"
  | (prizeDistributionsBuffer) m c where "prizeDistributionsBufferContract this = None"
      "perform evs this = setFields ''prizeDistributionsBuffer'' m c this"
      "writes ''drawBuffer'' evs = 0" "writes ''prizeDistributionsBuffer'' evs = 1"
  proof (cases g)
    case GetDrawBufferContract
    then have evs: "evs = snd (getAndSetEthersContract ''drawBuffer'' DrawBuffer
                (\<lambda>_. functions_getDrawBuffer w (drawCalculatorContract this)) this)"
      by (simp add: evs_def getDrawBufferContract_def)
    show ?thesis
    proof (cases rule: getAndSetEthersContract_cases
        [of "''drawBuffer''" this DrawBuffer "\<lambda>_. functions_getDrawBuffer w (drawCalculatorContract this)"])
      case (cached c)
      with evs have "evs = []" by simp
      then show ?thesis by (intro none) (simp_all add: writes_Nil)
    next
      case (failed e evs')
      with evs have "evs = evs'" by simp
      with failed(3) show ?thesis
        by (intro none) (auto simp: perform_no_FieldsSet writes_def filter_empty_conv split: event.splits)
    next
      case (resolved a m c)
      with evs have "evs = [AddressFetched ''drawBuffer'', Resolved DrawBuffer a, FieldsSet ''drawBuffer'' m c]"
        by simp
      moreover from resolved(1) have "drawBufferContract this = None"
        by (simp add: contractField_lazy)
      ultimately show ?thesis
        by (intro drawBuffer [of m c]) (simp_all add: writes_def)
    qed
  next
    case GetPrizeDistributionsBufferContract
    then have evs: "evs = snd (getAndSetEthersContract ''prizeDistributionsBuffer'' PrizeDistributionBuffer
                (\<lambda>_. functions_getPrizeDistributionBuffer w (drawCalculatorContract this)) this)"
      by (simp add: evs_def getPrizeDistributionsBufferContract_def)
    show ?thesis
    proof (cases rule: getAndSetEthersContract_cases
        [of "''prizeDistributionsBuffer''" this PrizeDistributionBuffer
            "\<lambda>_. functions_getPrizeDistributionBuffer w (drawCalculatorContract this)"])
      case (cached c)
      with evs have "evs = []" by simp
      then show ?thesis by (intro none) (simp_all add: writes_Nil)
    next
      case (failed e evs')
      with evs have "evs = evs'" by simp
      with failed(3) show ?thesis
        by (intro none) (auto simp: perform_no_FieldsSet writes_def filter_empty_conv split: event.splits)
    next
      case (resolved a m c)
      with evs have "evs = [AddressFetched ''prizeDistributionsBuffer'', Resolved PrizeDistributionBuffer a,
                             FieldsSet ''prizeDistributionsBuffer'' m c]"
        by simp
      moreover from resolved(1) have "prizeDistributionsBufferContract this = None"
        by (simp add: contractField_lazy)
      ultimately show ?thesis
        by (intro prizeDistributionsBuffer [of m c]) (simp_all add: writes_def)
    qed
  qed
  then show ?case
  proof cases
    case none
    with Cons.IH [of this] show ?thesis
      by (simp add: unfold writes_append)
  next
    case (drawBuffer m c)
    with Cons.IH [of "setFields ''drawBuffer'' m c this"] show ?thesis
      by (simp add: unfold writes_append setFields_drawBuffer)
  next
    case (prizeDistributionsBuffer m c)
    with Cons.IH [of "setFields ''prizeDistributionsBuffer'' m c this"] show ?thesis
      by (simp add: unfold writes_append setFields_prizeDistributionsBuffer)
  qed
qed

text \<open>
  The continuation of a call does not look at the lazy fields: it assigns whether or not
  another call has assigned in the meantime.
\<close>
lemma setFields_readonly:
  "signerOrProvider (setFields k m c this) = signerOrProvider this"
  "contractMetadataList (setFields k m c this) = contractMetadataList this"
  by (simp_all add: setFields_def)

lemma resume_ignores_lazy_fields:
  "getAndSetEthersContract_resume key ty fetched (setFields k m c this) =
   getAndSetEthersContract_resume key ty fetched this"
  unfolding getAndSetEthersContract_resume_def setFields_readonly ..

lemma collectFulfilled_rejected:
  "Inl reason \<in> set responses \<Longrightarrow>
   \<exists>reason'. Inl reason' \<in> set responses \<and> collectFulfilled responses = Inl (Rethrown reason')"
proof (induction responses)
  case Nil
  then show ?case by simp
next
  case (Cons response responses)
  show ?case
  proof (cases response)
    case (Inl r)
    then show ?thesis by auto
  next
    case (Inr v)
    with Cons.prems have "Inl reason \<in> set responses"
      by auto
    from Cons.IH [OF this] obtain reason' where "Inl reason' \<in> set responses"
      and "collectFulfilled responses = Inl (Rethrown reason')"
      by blast
    with Inr show ?thesis
      by auto
  qed
qed

section \<open>The examples, evaluated\<close>

lemma BigNumber_only_big: "BigNumber_only (BigNumber b) = Inr (BigNumber b)"
  by (simp add: BigNumber_only_def)






lemma normalizePrize_legacyPrize3: "normalizePrize legacyPrize3 = legacyPrize3(''tierIndex'' \<mapsto> Number 3)"
  by (simp add: normalizePrize_def tierIndexOf_def readField_def legacyPrize3_def)

lemma prizesOf_extendedLegacy: "prizesOf extendedLegacy = Some [legacyPrize3]"
  by (simp add: prizesOf_def extendedLegacy_def)




lemma format_notedResults:
  "formatDrawResultsFromLegacyDrawResults BigNumber_only notedResults = Inr canonicalResults"
  by (simp add: formatDrawResultsFromLegacyDrawResults_def notedResults_def canonicalResults_def
      formatPrize_def readField_def readMember_def tierIndexOf_def notedPrize3_def legacyPrize3_def
      canonicalPrize3_def BigNumber_only_def)

lemma format_numberResults:
  "formatDrawResultsFromLegacyDrawResults BigNumber_ethers numberResults = Inr canonicalResults"
  by (simp add: formatDrawResultsFromLegacyDrawResults_def numberResults_def canonicalResults_def
      formatPrize_def readField_def readMember_def tierIndexOf_def numberPrize3_def legacyPrize3_def
      canonicalPrize3_def BigNumber_ethers_def)

lemma exampleFacade_constructed:
  "newPrizeDistributor sp exampleContracts = Inr (exampleFacade sp)"
  by (simp add: newPrizeDistributor_def getMetadataAndContract_def getContractsByType_def
      exampleContracts_def exampleMetadata_def exampleFacade_def exampleContract_def)

lemma example_getDrawBufferContract:
  "getDrawBufferContract exampleWorld (exampleFacade sp) =
     (Inr (exampleContract sp ''0xB1''),
      [AddressFetched ''drawBuffer'', Resolved DrawBuffer ''0xB1'',
       FieldsSet ''drawBuffer'' (exampleMetadata ''0xB1'' DrawBuffer) (exampleContract sp ''0xB1'')])"
  by (simp add: getDrawBufferContract_def getAndSetEthersContract_def getAndSetEthersContract_start_def
      getAndSetEthersContract_resume_def contractField_def
      getMetadataAndContract_def getContractsByType_def exampleWorld_def exampleFacade_def
      exampleContracts_def exampleMetadata_def exampleContract_def)

lemma example_getPrizeDistributionsBufferContract:
  "getPrizeDistributionsBufferContract exampleWorld (exampleFacade sp) =
     (Inr (exampleContract sp ''0xB2''),
      [AddressFetched ''prizeDistributionsBuffer'', Resolved PrizeDistributionBuffer ''0xB2'',
       FieldsSet ''prizeDistributionsBuffer'' (exampleMetadata ''0xB2'' PrizeDistributionBuffer)
         (exampleContract sp ''0xB2'')])"
  by (simp add: getPrizeDistributionsBufferContract_def getAndSetEthersContract_def getAndSetEthersContract_start_def
      getAndSetEthersContract_resume_def contractField_def
      getMetadataAndContract_def getContractsByType_def exampleWorld_def exampleFacade_def
      exampleContracts_def exampleMetadata_def exampleContract_def)

lemma exampleWorld_sel:
  "functions_getDrawBuffer exampleWorld = (\<lambda>_. Inr ''0xB1'')"
  "functions_getPrizeDistributionBuffer exampleWorld = (\<lambda>_. Inr ''0xB2'')"
  "functions_getNewestDraw exampleWorld = (\<lambda>_. Inr (exampleDraw 10))"
  "functions_getOldestDraw exampleWorld = (\<lambda>_. Inr (exampleDraw 2))"
  "functions_getNewestPrizeDistribution exampleWorld = (\<lambda>_. Inr (examplePrizeDistribution, 8))"
  "functions_getOldestPrizeDistribution exampleWorld = (\<lambda>_. Inr (examplePrizeDistribution, 5))"
  "functions_getDraws exampleWorld = (\<lambda>_ ids. Inr (map exampleDraw ids))"
  "functions_getPrizeDistributions exampleWorld =
     (\<lambda>_ ids. if 3 \<in> set ids then Inl (CallError ''prize distribution 3 is not set'')
              else Inr (map examplePrizeDistributionOf ids))"
  "functions_getPrizeDistribution exampleWorld = (\<lambda>_ _. Inr examplePrizeDistribution)"
  "functions_getNormalizedBalancesForDrawIds exampleWorld =
     (\<lambda>_ user ids. Inr (map (\<lambda>_. if user = ''0xZero'' then 0 else 5) ids))"
  "contract_claim exampleWorld = (\<lambda>_ _ _ _ _. Inr ''0xTX'')"
  "calculateDrawResults exampleWorld = (\<lambda>_ draw _. Inr (exampleResults (drawId draw) 40))"
  "prepareClaims exampleWorld = (\<lambda>_ _. Inr exampleClaim)"
  by (simp_all add: exampleWorld_def)

lemma example_reads:
  "fst (getOldestDraw exampleWorld (exampleFacade sp)) = Inr (exampleDraw 2)"
  "fst (getNewestDraw exampleWorld (exampleFacade sp)) = Inr (exampleDraw 10)"
  "fst (getOldestPrizeDistribution exampleWorld (exampleFacade sp)) = Inr (examplePrizeDistribution, 5)"
  "fst (getNewestPrizeDistribution exampleWorld (exampleFacade sp)) = Inr (examplePrizeDistribution, 8)"
  by (simp_all add: getOldestDraw_def getNewestDraw_def getOldestPrizeDistribution_def
      getNewestPrizeDistribution_def example_getDrawBufferContract
      example_getPrizeDistributionsBufferContract await_def call_def copyDraw_id
      copyPrizeDistribution_id exampleWorld_sel)

lemma example_handles_of_any_world:
  assumes "functions_getDrawBuffer w = (\<lambda>_. Inr ''0xB1'')"
    and "functions_getPrizeDistributionBuffer w = (\<lambda>_. Inr ''0xB2'')"
  shows "fst (getDrawBufferContract w (exampleFacade sp)) = Inr (exampleContract sp ''0xB1'')"
    and "fst (getPrizeDistributionsBufferContract w (exampleFacade sp)) = Inr (exampleContract sp ''0xB2'')"
  using assms
  by (simp_all add: getDrawBufferContract_def getPrizeDistributionsBufferContract_def
      getAndSetEthersContract_def getAndSetEthersContract_start_def getAndSetEthersContract_resume_def
      contractField_def getMetadataAndContract_def getContractsByType_def exampleFacade_def
      exampleContracts_def exampleMetadata_def exampleContract_def)

lemma example_reads_disjoint:
  "fst (getOldestDraw disjointWorld (exampleFacade sp)) = Inr (exampleDraw 2)"
  "fst (getNewestDraw disjointWorld (exampleFacade sp)) = Inr (exampleDraw 4)"
  "fst (getOldestPrizeDistribution disjointWorld (exampleFacade sp)) = Inr (examplePrizeDistribution, 6)"
  "fst (getNewestPrizeDistribution disjointWorld (exampleFacade sp)) = Inr (examplePrizeDistribution, 9)"
proof -
  have sel: "functions_getDrawBuffer disjointWorld = (\<lambda>_. Inr ''0xB1'')"
    "functions_getPrizeDistributionBuffer disjointWorld = (\<lambda>_. Inr ''0xB2'')"
    "functions_getOldestDraw disjointWorld = (\<lambda>_. Inr (exampleDraw 2))"
    "functions_getNewestDraw disjointWorld = (\<lambda>_. Inr (exampleDraw 4))"
    "functions_getOldestPrizeDistribution disjointWorld = (\<lambda>_. Inr (examplePrizeDistribution, 6))"
    "functions_getNewestPrizeDistribution disjointWorld = (\<lambda>_. Inr (examplePrizeDistribution, 9))"
    by (simp_all add: disjointWorld_def exampleWorld_sel)
  note handles = example_handles_of_any_world [OF sel(1) sel(2)]
  show "fst (getOldestDraw disjointWorld (exampleFacade sp)) = Inr (exampleDraw 2)"
    "fst (getNewestDraw disjointWorld (exampleFacade sp)) = Inr (exampleDraw 4)"
    "fst (getOldestPrizeDistribution disjointWorld (exampleFacade sp)) = Inr (examplePrizeDistribution, 6)"
    "fst (getNewestPrizeDistribution disjointWorld (exampleFacade sp)) = Inr (examplePrizeDistribution, 9)"
    by (simp_all add: getOldestDraw_def getNewestDraw_def getOldestPrizeDistribution_def
        getNewestPrizeDistribution_def fst_await handles sel call_def copyDraw_id copyPrizeDistribution_id)
qed

lemma example_reads_empty:
  "fst (getOldestDraw emptyDrawBufferWorld (exampleFacade sp)) = Inl (CallError ''no draw'')"
proof -
  have sel: "functions_getDrawBuffer emptyDrawBufferWorld = (\<lambda>_. Inr ''0xB1'')"
    "functions_getPrizeDistributionBuffer emptyDrawBufferWorld = (\<lambda>_. Inr ''0xB2'')"
    "functions_getOldestDraw emptyDrawBufferWorld = (\<lambda>_. Inl (CallError ''no draw''))"
    by (simp_all add: emptyDrawBufferWorld_def exampleWorld_sel)
  note handles = example_handles_of_any_world [OF sel(1) sel(2)]
  show ?thesis
    by (simp add: getOldestDraw_def fst_await handles sel call_def)
qed

lemma exampleLinked_fields:
  "drawBufferContract (exampleLinked sp) = Some (exampleContract sp ''0xB1'')"
  "prizeDistributionsBufferContract (exampleLinked sp) = Some (exampleContract sp ''0xB2'')"
  "drawCalculatorContract (exampleLinked sp) = exampleContract sp ''0xC1''"
  by (simp_all add: exampleLinked_def exampleFacade_def)

lemma example_first_attempt:
  "getDraws exampleWorld (exampleFacade sp) [1, 2, 3] =
     (Inr [exampleDraw 1, exampleDraw 2, exampleDraw 3],
      [AddressFetched ''drawBuffer'', Resolved DrawBuffer ''0xB1'',
       FieldsSet ''drawBuffer'' (exampleMetadata ''0xB1'' DrawBuffer) (exampleContract sp ''0xB1'')])"
  "getPrizeDistributions exampleWorld (exampleFacade sp) [1, 2, 3] =
     (Inl (CallError ''prize distribution 3 is not set''),
      [AddressFetched ''prizeDistributionsBuffer'', Resolved PrizeDistributionBuffer ''0xB2'',
       FieldsSet ''prizeDistributionsBuffer'' (exampleMetadata ''0xB2'' PrizeDistributionBuffer)
         (exampleContract sp ''0xB2'')])"
  by (simp_all add: getDraws_def getPrizeDistributions_def example_getDrawBufferContract
      example_getPrizeDistributionsBufferContract await_def call_def exampleWorld_sel copyDraw_id)

lemma example_perform:
  "perform
     [AddressFetched ''drawBuffer'', Resolved DrawBuffer ''0xB1'',
       FieldsSet ''drawBuffer'' (exampleMetadata ''0xB1'' DrawBuffer) (exampleContract sp ''0xB1''),
       AddressFetched ''prizeDistributionsBuffer'', Resolved PrizeDistributionBuffer ''0xB2'',
       FieldsSet ''prizeDistributionsBuffer'' (exampleMetadata ''0xB2'' PrizeDistributionBuffer)
         (exampleContract sp ''0xB2'')]
     (exampleFacade sp) = exampleLinked sp"
  apply (simp only: perform.simps)
  apply (simp only: setFields_def)
  apply (simp add: exampleLinked_def)
  done

lemma example_dropLargest: "dropLargest [1, 2, 3] = [1, 2]"
  by (simp add: dropLargest_def)

lemma example_second_attempt:
  "getDraws exampleWorld (exampleLinked sp) [1, 2] = (Inr [exampleDraw 1, exampleDraw 2], [])"
  "getPrizeDistributions exampleWorld (exampleLinked sp) [1, 2] =
     (Inr [examplePrizeDistributionOf 1, examplePrizeDistributionOf 2], [])"
  by (simp_all add: getDraws_def getPrizeDistributions_def
      cached_getDrawBufferContract [OF exampleLinked_fields(1)]
      cached_getPrizeDistributionsBufferContract [OF exampleLinked_fields(2)]
      await_def call_def exampleWorld_sel copyDraw_id copyPrizeDistribution_id)

lemma example_retry:
  "retry exampleWorld (exampleFacade sp, [1, 2, 3]) (exampleLinked sp, [1, 2])"
  by (simp add: retry_def fetchFails_def example_first_attempt example_perform example_dropLargest
      del: perform.simps)

lemma example_pairs:
  "fst (getDrawsAndPrizeDistributions exampleWorld (exampleFacade sp) [1, 2, 3]) =
     [(exampleDraw 1, Some (examplePrizeDistributionOf 1)),
      (exampleDraw 2, Some (examplePrizeDistributionOf 2))]"
proof -
  have "fetchFails exampleWorld (exampleFacade sp) [1, 2, 3]"
    by (simp add: fetchFails_def example_first_attempt)
  from getDrawsAndPrizeDistributions_retry [OF this]
  have "fst (getDrawsAndPrizeDistributions exampleWorld (exampleFacade sp) [1, 2, 3]) =
        fst (getDrawsAndPrizeDistributions exampleWorld (exampleLinked sp) [1, 2])"
    by (simp add: example_first_attempt example_perform example_dropLargest del: perform.simps)
  moreover have "\<not> fetchFails exampleWorld (exampleLinked sp) [1, 2]"
    by (simp add: fetchFails_def example_second_attempt)
  ultimately show ?thesis
    by (simp add: getDrawsAndPrizeDistributions_done example_second_attempt pairUp_def enumerate_eq_zip
        upt_rec)
qed

lemma example_getPrizeDistribution:
  "getPrizeDistribution exampleWorld (exampleFacade sp) i =
     (Inr examplePrizeDistribution,
      [AddressFetched ''prizeDistributionsBuffer'', Resolved PrizeDistributionBuffer ''0xB2'',
       FieldsSet ''prizeDistributionsBuffer'' (exampleMetadata ''0xB2'' PrizeDistributionBuffer)
         (exampleContract sp ''0xB2'')])"
  by (simp add: getPrizeDistribution_def example_getPrizeDistributionsBufferContract await_def call_def
      exampleWorld_sel copyPrizeDistribution_id)

lemma exampleFacade_fields:
  "signerOrProvider (exampleFacade sp) = sp"
  "this_chainId (exampleFacade sp) = 1"
  "drawCalculatorContract (exampleFacade sp) = exampleContract sp ''0xC1''"
  "prizeDistributorsContract (exampleFacade sp) = exampleContract sp ''0xD1''"
  "drawBufferContract (exampleFacade sp) = None"
  "prizeDistributionsBufferContract (exampleFacade sp) = None"
  by (simp_all add: exampleFacade_def)

lemma example_two_calls:
  "snd (callsInSequence [(GetDrawBufferContract, exampleWorld), (GetDrawBufferContract, exampleWorld)]
          (exampleFacade sp)) =
     [AddressFetched ''drawBuffer'', Resolved DrawBuffer ''0xB1'',
      FieldsSet ''drawBuffer'' (exampleMetadata ''0xB1'' DrawBuffer) (exampleContract sp ''0xB1'')]"
proof -
  have "drawBufferContract
          (perform [AddressFetched ''drawBuffer'', Resolved DrawBuffer ''0xB1'',
                    FieldsSet ''drawBuffer'' (exampleMetadata ''0xB1'' DrawBuffer) (exampleContract sp ''0xB1'')]
             (exampleFacade sp)) = Some (exampleContract sp ''0xB1'')"
    by (simp add: setFields_drawBuffer)
  from cached_getDrawBufferContract [OF this] show ?thesis
    by (simp add: example_getDrawBufferContract del: perform.simps)
qed

lemma example_getValidDrawIds_effects:
  "snd (getValidDrawIds exampleWorld (exampleFacade sp)) =
     [AddressFetched ''prizeDistributionsBuffer'', Resolved PrizeDistributionBuffer ''0xB2'',
      FieldsSet ''prizeDistributionsBuffer'' (exampleMetadata ''0xB2'' PrizeDistributionBuffer)
        (exampleContract sp ''0xB2''),
      AddressFetched ''prizeDistributionsBuffer'', Resolved PrizeDistributionBuffer ''0xB2'',
      FieldsSet ''prizeDistributionsBuffer'' (exampleMetadata ''0xB2'' PrizeDistributionBuffer)
        (exampleContract sp ''0xB2''),
      AddressFetched ''drawBuffer'', Resolved DrawBuffer ''0xB1'',
      FieldsSet ''drawBuffer'' (exampleMetadata ''0xB1'' DrawBuffer) (exampleContract sp ''0xB1''),
      AddressFetched ''drawBuffer'', Resolved DrawBuffer ''0xB1'',
      FieldsSet ''drawBuffer'' (exampleMetadata ''0xB1'' DrawBuffer) (exampleContract sp ''0xB1'')]"
  by (simp add: getValidDrawIds_def getOldestDraw_def getNewestDraw_def getOldestPrizeDistribution_def
      getNewestPrizeDistribution_def example_getDrawBufferContract
      example_getPrizeDistributionsBufferContract await_def call_def exampleWorld_sel Let_def)

lemma example_resume:
  "getAndSetEthersContract_resume ''drawBuffer'' DrawBuffer (Inr ''0xB1'') (exampleLinked sp) =
     (Inr (exampleContract sp ''0xB1''),
      [AddressFetched ''drawBuffer'', Resolved DrawBuffer ''0xB1'',
       FieldsSet ''drawBuffer'' (exampleMetadata ''0xB1'' DrawBuffer) (exampleContract sp ''0xB1'')])"
  by (simp add: getAndSetEthersContract_resume_def getMetadataAndContract_def getContractsByType_def
      exampleLinked_def exampleFacade_def exampleContracts_def exampleMetadata_def exampleContract_def)

lemma batch_exampleWorld:
  "batch exampleWorld sp cs =
     (case sp of NoProvider \<Rightarrow> Inl (CallError ''no provider'')
      | _ \<Rightarrow> Inr (map (\<lambda>c. (address c, ''0xC1'')) cs))"
  by (simp add: exampleWorld_def)

lemma twoChain_groups:
  "sortContractsByChainId (getContractsByType twoChainContracts PrizeDistributor) =
     [(1, [exampleMetadata ''0xD1'' PrizeDistributor]),
      (5, [\<lparr>chainId = 5, address = ''0xD5'', type' = PrizeDistributor, abi = ''abi'', children = None\<rparr>])]"
  by (simp add: sortContractsByChainId_def Object_keys_def isArrayIndex_def getContractsByType_def
      twoChainContracts_def exampleContracts_def exampleMetadata_def)

text \<open>Chain ids from \<open>2^32 - 1\<close> on are listed after the others, in the order they were added.\<close>

lemma Object_keys_example:
  "Object_keys [5, 4294967296, 1, 5, 4294967295] = [1, 5, 4294967296, 4294967295]"
  by (simp add: Object_keys_def isArrayIndex_def)

lemma chainOneOnly_providers:
  "providerFor chainOneOnly 1 = Provider ''rpc''" "providerFor chainOneOnly 5 = NoProvider"
  by (simp_all add: providerFor_def chainOneOnly_def)

section \<open>The specified properties\<close>

subsection \<open>C1: the reconciled range\<close>

text \<open>
  Claim C1. For every facade and every answer of the chain, \<open>getValidDrawIds\<close> returns
  the empty list when any of the four reads is rejected; otherwise, with \<open>lower\<close> the
  larger of the two oldest ids and \<open>upper\<close> the smaller of the two newest ids, the empty
  list when \<open>upper < lower\<close> and the integers from \<open>lower\<close> to \<open>upper\<close>, both included,
  otherwise. The result is strictly ascending.
\<close>
theorem getValidDrawIds_reconciles:
  "fst (getValidDrawIds w this) =
     (case (fst (getOldestDraw w this), fst (getNewestDraw w this),
            fst (getOldestPrizeDistribution w this), fst (getNewestPrizeDistribution w this)) of
        (Inr oldestDraw, Inr newestDraw, Inr (_, oldestPrizeDistributionId), Inr (_, newestPrizeDistributionId)) \<Rightarrow>
          (let lower = max (drawId oldestDraw) oldestPrizeDistributionId;
               upper = min (drawId newestDraw) newestPrizeDistributionId
           in if upper < lower then [] else [lower..upper])
      | _ \<Rightarrow> []) \<and>
   sorted_wrt (<) (fst (getValidDrawIds w this))"
proof -
  have eq: "fst (getValidDrawIds w this) =
     (case (fst (getOldestDraw w this), fst (getNewestDraw w this),
            fst (getOldestPrizeDistribution w this), fst (getNewestPrizeDistribution w this)) of
        (Inr oldestDraw, Inr newestDraw, Inr (_, oldestPrizeDistributionId), Inr (_, newestPrizeDistributionId)) \<Rightarrow>
          (let lower = max (drawId oldestDraw) oldestPrizeDistributionId;
               upper = min (drawId newestDraw) newestPrizeDistributionId
           in if upper < lower then [] else [lower..upper])
      | _ \<Rightarrow> [])"
    by (auto simp: getValidDrawIds_def Let_def pushRange_upto max.commute split: prod.splits sum.splits)
  have "sorted_wrt (<) (fst (getValidDrawIds w this))"
    unfolding eq by (simp add: Let_def sorted_wrt_upto split: prod.splits sum.splits)
  with eq show ?thesis
    by blast
qed

text \<open>
  The examples of the spec: draws from 2 to 10 and prize distributions from 5 to 8
  reconcile to 5, 6, 7, 8; draws from 2 to 4 and prize distributions from 6 to 9 reconcile
  to nothing; so does a draw buffer whose reads are rejected.
\<close>
theorem getValidDrawIds_reconciles_example:
  "fst (getValidDrawIds exampleWorld (exampleFacade (Provider ''rpc''))) = [5, 6, 7, 8] \<and>
   fst (getValidDrawIds disjointWorld (exampleFacade (Provider ''rpc''))) = [] \<and>
   fst (getValidDrawIds emptyDrawBufferWorld (exampleFacade (Provider ''rpc''))) = []"
proof -
  have "fst (getValidDrawIds exampleWorld (exampleFacade (Provider ''rpc''))) = [5, 6, 7, 8]"
    using getValidDrawIds_reconciles [of exampleWorld "exampleFacade (Provider ''rpc'')"]
    by (simp add: example_reads exampleDraw_def upto_rec1)
  moreover have "fst (getValidDrawIds disjointWorld (exampleFacade (Provider ''rpc''))) = []"
    using getValidDrawIds_reconciles [of disjointWorld "exampleFacade (Provider ''rpc'')"]
    by (simp add: example_reads_disjoint exampleDraw_def)
  moreover have "fst (getValidDrawIds emptyDrawBufferWorld (exampleFacade (Provider ''rpc''))) = []"
    using getValidDrawIds_reconciles [of emptyDrawBufferWorld "exampleFacade (Provider ''rpc'')"]
    by (simp add: example_reads_empty)
  ultimately show ?thesis
    by blast
qed

subsection \<open>C2: the paired fetch ends\<close>

text \<open>
  Claim C2. \<open>getDrawsAndPrizeDistributions\<close> is a total function (its recursion is on a
  shorter list each time). Its result is reached by finitely many retries, each taken
  because a batched read was rejected, ending at an object and a list of ids on which both
  batched reads are fulfilled with what the two buffer contracts answered for that list.
  The result has one pair per draw of that answer, in order: the pair at an index holds
  the draw at that index and the prize distribution at that index (\<open>undefined\<close> where the
  chain answered fewer prize distributions). The buffer contracts answer one record per
  requested id; on such a chain the result has one pair per id of the list, each made of
  the draw and the prize distribution answered at the place of that id. A retry is on the
  list without its largest id: the sorted list is the retried list followed by the
  maximum. On the empty list both batched reads are fulfilled with the empty list and the
  result is the empty list, with no effect.
\<close>
theorem paired_fetch_retries_and_ends:
  "(\<exists>this' ids' draws prizeDistributions.
      (retry w)\<^sup>*\<^sup>* (this, ids) (this', ids') \<and> \<not> fetchFails w this' ids' \<and>
      length ids' \<le> length ids \<and>
      fst (getDraws w this' ids') = Inr draws \<and>
      fst (getPrizeDistributions w this' ids') = Inr prizeDistributions \<and>
      (ids' = [] \<longrightarrow> draws = [] \<and> prizeDistributions = []) \<and>
      (ids' \<noteq> [] \<longrightarrow>
         (\<exists>c. fst (getDrawBufferContract w this') = Inr c \<and> functions_getDraws w c ids' = Inr draws) \<and>
         (\<exists>c. fst (getPrizeDistributionsBufferContract w this') = Inr c \<and>
              functions_getPrizeDistributions w c ids' = Inr prizeDistributions)) \<and>
      length (fst (getDrawsAndPrizeDistributions w this ids)) = length draws \<and>
      (\<forall>i < length draws.
         fst (getDrawsAndPrizeDistributions w this ids) ! i =
           (draws ! i, if i < length prizeDistributions then Some (prizeDistributions ! i) else None)) \<and>
      ((\<forall>c l ds. functions_getDraws w c l = Inr ds \<longrightarrow> length ds = length l) \<and>
       (\<forall>c l ps. functions_getPrizeDistributions w c l = Inr ps \<longrightarrow> length ps = length l) \<longrightarrow>
         length (fst (getDrawsAndPrizeDistributions w this ids)) = length ids' \<and>
         (\<forall>i < length ids'.
            fst (getDrawsAndPrizeDistributions w this ids) ! i =
              (draws ! i, Some (prizeDistributions ! i))))) \<and>
   (\<forall>this1 ids1. retry w (this, ids) (this1, ids1) \<longrightarrow>
      ids \<noteq> [] \<and> sort ids = ids1 @ [Max (set ids)] \<and>
      fst (getDrawsAndPrizeDistributions w this ids) = fst (getDrawsAndPrizeDistributions w this1 ids1)) \<and>
   getDraws w this [] = (Inr [], []) \<and>
   getPrizeDistributions w this [] = (Inr [], []) \<and>
   getDrawsAndPrizeDistributions w this [] = ([], [])"
proof (intro conjI allI impI)
  let ?result = "fst (getDrawsAndPrizeDistributions w this ids)"
  from paired_fetch_ends [of w this ids]
  obtain this' ids' where chain: "(retry w)\<^sup>*\<^sup>* (this, ids) (this', ids')"
    and ok: "\<not> fetchFails w this' ids'"
    and len: "length ids' \<le> length ids"
    and res: "?result =
                pairUp (projr (fst (getDraws w this' ids')))
                       (projr (fst (getPrizeDistributions w this' ids')))"
    by blast
  from ok obtain draws where d: "fst (getDraws w this' ids') = Inr draws"
    by (cases "fst (getDraws w this' ids')") (simp_all add: fetchFails_def)
  from ok obtain prizeDistributions where
    p: "fst (getPrizeDistributions w this' ids') = Inr prizeDistributions"
    by (cases "fst (getPrizeDistributions w this' ids')") (simp_all add: fetchFails_def)
  from res d p have pairs: "?result = pairUp draws prizeDistributions"
    by simp
  have empty: "ids' = [] \<longrightarrow> draws = [] \<and> prizeDistributions = []"
    using d p by (auto simp: getDraws_Nil getPrizeDistributions_Nil)
  have answered: "ids' \<noteq> [] \<longrightarrow>
         (\<exists>c. fst (getDrawBufferContract w this') = Inr c \<and> functions_getDraws w c ids' = Inr draws) \<and>
         (\<exists>c. fst (getPrizeDistributionsBufferContract w this') = Inr c \<and>
              functions_getPrizeDistributions w c ids' = Inr prizeDistributions)"
    using getDraws_fulfilled [OF d] getPrizeDistributions_fulfilled [OF p] by blast
  have count: "length ?result = length draws"
    by (simp add: pairs length_pairUp)
  have each: "\<forall>i < length draws.
         ?result ! i =
           (draws ! i, if i < length prizeDistributions then Some (prizeDistributions ! i) else None)"
    by (simp add: pairs pairUp_nth)
  have perId: "length ?result = length ids' \<and>
         (\<forall>i < length ids'. ?result ! i = (draws ! i, Some (prizeDistributions ! i)))"
    if chainAnswers:
      "(\<forall>c l ds. functions_getDraws w c l = Inr ds \<longrightarrow> length ds = length l) \<and>
       (\<forall>c l ps. functions_getPrizeDistributions w c l = Inr ps \<longrightarrow> length ps = length l)"
  proof -
    have "length draws = length ids' \<and> length prizeDistributions = length ids'"
    proof (cases "ids' = []")
      case True
      with empty show ?thesis
        by simp
    next
      case False
      with answered obtain c c' where "functions_getDraws w c ids' = Inr draws"
        and "functions_getPrizeDistributions w c' ids' = Inr prizeDistributions"
        by blast
      with chainAnswers show ?thesis
        by blast
    qed
    with count each show ?thesis
      by simp
  qed
  have body:
     "(retry w)\<^sup>*\<^sup>* (this, ids) (this', ids') \<and> \<not> fetchFails w this' ids' \<and>
      length ids' \<le> length ids \<and>
      fst (getDraws w this' ids') = Inr draws \<and>
      fst (getPrizeDistributions w this' ids') = Inr prizeDistributions \<and>
      (ids' = [] \<longrightarrow> draws = [] \<and> prizeDistributions = []) \<and>
      (ids' \<noteq> [] \<longrightarrow>
         (\<exists>c. fst (getDrawBufferContract w this') = Inr c \<and> functions_getDraws w c ids' = Inr draws) \<and>
         (\<exists>c. fst (getPrizeDistributionsBufferContract w this') = Inr c \<and>
              functions_getPrizeDistributions w c ids' = Inr prizeDistributions)) \<and>
      length ?result = length draws \<and>
      (\<forall>i < length draws.
         ?result ! i =
           (draws ! i, if i < length prizeDistributions then Some (prizeDistributions ! i) else None)) \<and>
      ((\<forall>c l ds. functions_getDraws w c l = Inr ds \<longrightarrow> length ds = length l) \<and>
       (\<forall>c l ps. functions_getPrizeDistributions w c l = Inr ps \<longrightarrow> length ps = length l) \<longrightarrow>
         length ?result = length ids' \<and>
         (\<forall>i < length ids'. ?result ! i = (draws ! i, Some (prizeDistributions ! i))))"
  proof (intro conjI impI)
    show "(retry w)\<^sup>*\<^sup>* (this, ids) (this', ids')"
      by (rule chain)
    show "\<not> fetchFails w this' ids'"
      by (rule ok)
    show "length ids' \<le> length ids"
      by (rule len)
    show "fst (getDraws w this' ids') = Inr draws"
      by (rule d)
    show "fst (getPrizeDistributions w this' ids') = Inr prizeDistributions"
      by (rule p)
    show "draws = []" if "ids' = []"
      using empty that by simp
    show "prizeDistributions = []" if "ids' = []"
      using empty that by simp
    show "\<exists>c. fst (getDrawBufferContract w this') = Inr c \<and> functions_getDraws w c ids' = Inr draws"
      if "ids' \<noteq> []"
      using answered that by blast
    show "\<exists>c. fst (getPrizeDistributionsBufferContract w this') = Inr c \<and>
              functions_getPrizeDistributions w c ids' = Inr prizeDistributions"
      if "ids' \<noteq> []"
      using answered that by blast
    show "length ?result = length draws"
      by (rule count)
    show "\<forall>i < length draws.
         ?result ! i =
           (draws ! i, if i < length prizeDistributions then Some (prizeDistributions ! i) else None)"
      by (rule each)
    show "length ?result = length ids'"
      if "(\<forall>c l ds. functions_getDraws w c l = Inr ds \<longrightarrow> length ds = length l) \<and>
          (\<forall>c l ps. functions_getPrizeDistributions w c l = Inr ps \<longrightarrow> length ps = length l)"
      using perId [OF that] by (rule conjunct1)
    show "\<forall>i < length ids'. ?result ! i = (draws ! i, Some (prizeDistributions ! i))"
      if "(\<forall>c l ds. functions_getDraws w c l = Inr ds \<longrightarrow> length ds = length l) \<and>
          (\<forall>c l ps. functions_getPrizeDistributions w c l = Inr ps \<longrightarrow> length ps = length l)"
      using perId [OF that] by (rule conjunct2)
  qed
  show "\<exists>this' ids' draws prizeDistributions.
      (retry w)\<^sup>*\<^sup>* (this, ids) (this', ids') \<and> \<not> fetchFails w this' ids' \<and>
      length ids' \<le> length ids \<and>
      fst (getDraws w this' ids') = Inr draws \<and>
      fst (getPrizeDistributions w this' ids') = Inr prizeDistributions \<and>
      (ids' = [] \<longrightarrow> draws = [] \<and> prizeDistributions = []) \<and>
      (ids' \<noteq> [] \<longrightarrow>
         (\<exists>c. fst (getDrawBufferContract w this') = Inr c \<and> functions_getDraws w c ids' = Inr draws) \<and>
         (\<exists>c. fst (getPrizeDistributionsBufferContract w this') = Inr c \<and>
              functions_getPrizeDistributions w c ids' = Inr prizeDistributions)) \<and>
      length ?result = length draws \<and>
      (\<forall>i < length draws.
         ?result ! i =
           (draws ! i, if i < length prizeDistributions then Some (prizeDistributions ! i) else None)) \<and>
      ((\<forall>c l ds. functions_getDraws w c l = Inr ds \<longrightarrow> length ds = length l) \<and>
       (\<forall>c l ps. functions_getPrizeDistributions w c l = Inr ps \<longrightarrow> length ps = length l) \<longrightarrow>
         length ?result = length ids' \<and>
         (\<forall>i < length ids'. ?result ! i = (draws ! i, Some (prizeDistributions ! i))))"
    by (rule exI [of _ this'], rule exI [of _ ids'], rule exI [of _ draws],
        rule exI [of _ prizeDistributions], rule body)
next
  fix this1 ids1
  assume r: "retry w (this, ids) (this1, ids1)"
  then have f: "fetchFails w this ids" and ids1: "ids1 = dropLargest ids"
    and this1: "this1 = perform (snd (getDraws w this ids) @ snd (getPrizeDistributions w this ids)) this"
    by (simp_all add: retry_def)
  from f show "ids \<noteq> []"
    by (rule fetchFails_nonempty)
  then show "sort ids = ids1 @ [Max (set ids)]"
    unfolding ids1 by (rule sort_dropLargest)
  show "fst (getDrawsAndPrizeDistributions w this ids) = fst (getDrawsAndPrizeDistributions w this1 ids1)"
    unfolding ids1 this1 by (rule getDrawsAndPrizeDistributions_retry [OF f])
next
  show "getDraws w this [] = (Inr [], [])"
    by (rule getDraws_Nil)
next
  show "getPrizeDistributions w this [] = (Inr [], [])"
    by (rule getPrizeDistributions_Nil)
next
  show "getDrawsAndPrizeDistributions w this [] = ([], [])"
    by (simp add: getDrawsAndPrizeDistributions_done not_fetchFails_Nil getDraws_Nil
        getPrizeDistributions_Nil pairUp_Nil)
qed

text \<open>
  The example of the spec: of the ids 1, 2, 3 the prize distribution of 3 is missing; the
  first attempt is rejected, the retry on 1, 2 is fulfilled and gives two pairs, the draw
  1 with the prize distribution of draw 1 and the draw 2 with that of draw 2, which
  differ. The example chain answers one record per id.
\<close>
theorem paired_fetch_retries_and_ends_example:
  "fst (getDrawsAndPrizeDistributions exampleWorld (exampleFacade (Provider ''rpc'')) [1, 2, 3]) =
     [(exampleDraw 1, Some (examplePrizeDistributionOf 1)),
      (exampleDraw 2, Some (examplePrizeDistributionOf 2))] \<and>
   prize (examplePrizeDistributionOf 1) = 1000 \<and>
   prize (examplePrizeDistributionOf 2) = 2000 \<and>
   retry exampleWorld (exampleFacade (Provider ''rpc''), [1, 2, 3]) (exampleLinked (Provider ''rpc''), [1, 2]) \<and>
   sort [1, 2, 3] = [1, 2] @ [Max (set [1, 2, 3 :: int])] \<and>
   (\<exists>this' ids'.
      (retry exampleWorld)\<^sup>*\<^sup>* (exampleFacade (Provider ''rpc''), [1, 2, 3]) (this', ids') \<and>
      \<not> fetchFails exampleWorld this' ids' \<and> length ids' = 2) \<and>
   getDrawsAndPrizeDistributions exampleWorld (exampleFacade (Provider ''rpc'')) [] = ([], [])"
proof -
  note inst = paired_fetch_retries_and_ends [of exampleWorld "exampleFacade (Provider ''rpc'')" "[1, 2, 3]"]
  have len: "(\<forall>c l ds. functions_getDraws exampleWorld c l = Inr ds \<longrightarrow> length ds = length l) \<and>
             (\<forall>c l ps. functions_getPrizeDistributions exampleWorld c l = Inr ps \<longrightarrow> length ps = length l)"
    by (auto simp: exampleWorld_sel split: if_splits)
  from inst [THEN conjunct1] len obtain this' ids' where
    "(retry exampleWorld)\<^sup>*\<^sup>* (exampleFacade (Provider ''rpc''), [1, 2, 3]) (this', ids')"
    "\<not> fetchFails exampleWorld this' ids'"
    "length (fst (getDrawsAndPrizeDistributions exampleWorld (exampleFacade (Provider ''rpc'')) [1, 2, 3]))
       = length ids'"
    by blast
  moreover have "length (fst (getDrawsAndPrizeDistributions exampleWorld (exampleFacade (Provider ''rpc''))
                    [1, 2, 3])) = 2"
    by (simp add: example_pairs)
  ultimately have ends: "\<exists>this' ids'.
      (retry exampleWorld)\<^sup>*\<^sup>* (exampleFacade (Provider ''rpc''), [1, 2, 3]) (this', ids') \<and>
      \<not> fetchFails exampleWorld this' ids' \<and> length ids' = 2"
    by metis
  from inst [THEN conjunct2, THEN conjunct1] example_retry [of "Provider ''rpc''"]
  have largest: "sort [1, 2, 3] = [1, 2] @ [Max (set [1, 2, 3 :: int])]"
    by blast
  have empty: "getDrawsAndPrizeDistributions exampleWorld (exampleFacade (Provider ''rpc'')) [] = ([], [])"
    using paired_fetch_retries_and_ends [of exampleWorld "exampleFacade (Provider ''rpc'')" "[]"]
    by (elim conjE)
  have prizes: "prize (examplePrizeDistributionOf 1) = 1000" "prize (examplePrizeDistributionOf 2) = 2000"
    by (simp_all add: examplePrizeDistributionOf_def)
  from example_pairs example_retry ends largest empty prizes show ?thesis
    by blast
qed

subsection \<open>C3: refusals of a claim\<close>

text \<open>
  Claim C3. \<open>claimPrizesByDrawResults\<close> checks in this order: it fails with a
  SignerRequiredError when the facade is not bound to a signer; with a signer whose
  address is read, it fails with a NetworkMismatchError when the signer's chain differs
  from the facade's chain id; with a signer on the right chain, it fails with a
  NothingToClaimError when \<open>totalValue\<close> is zero. Whenever \<open>totalValue\<close> is zero the call
  is rejected and no claim transaction is submitted, whatever the binding.
\<close>
theorem claimPrizesByDrawResults_refusals:
  "((\<forall>s. signerOrProvider this \<noteq> Signer s) \<longrightarrow>
      claimPrizesByDrawResults w this drawResults =
        (Inl (SignerRequiredError ''PrizeDistributors [claimPrizes] | ''), [])) \<and>
   (signerOrProvider this = Signer s \<and> signer_getAddress s = Inr usersAddress \<and>
    signer_getChainId s = Inr signerChainId \<and> signerChainId \<noteq> this_chainId this \<longrightarrow>
      claimPrizesByDrawResults w this drawResults =
        (Inl (NetworkMismatchError ''PrizeDistributors [claimPrizes] | ''), [])) \<and>
   (signerOrProvider this = Signer s \<and> signer_getAddress s = Inr usersAddress \<and>
    signer_getChainId s = Inr (this_chainId this) \<and>
    drawResults ''totalValue'' = Some (Plain (BigNumber 0)) \<longrightarrow>
      claimPrizesByDrawResults w this drawResults =
        (Inl (NothingToClaimError ''PrizeDistributors [claimPrizes] | No prizes to claim.''), [])) \<and>
   (drawResults ''totalValue'' = Some (Plain (BigNumber 0)) \<longrightarrow>
      isl (fst (claimPrizesByDrawResults w this drawResults)) \<and>
      (\<forall>claim gasLimit. ClaimSubmitted claim gasLimit \<notin> set (snd (claimPrizesByDrawResults w this drawResults))))"
proof -
  have provider: "claimPrizesByDrawResults w this drawResults =
        (Inl (SignerRequiredError ''PrizeDistributors [claimPrizes] | ''), [])"
    if "\<forall>s. signerOrProvider this \<noteq> Signer s"
    using that
    by (cases "signerOrProvider this")
       (simp_all add: claimPrizesByDrawResults_def getUsersAddress_def validateIsSigner_def
          await_def call_def)
  have mismatch: "claimPrizesByDrawResults w this drawResults =
        (Inl (NetworkMismatchError ''PrizeDistributors [claimPrizes] | ''), [])"
    if "signerOrProvider this = Signer s \<and> signer_getAddress s = Inr usersAddress \<and>
        signer_getChainId s = Inr signerChainId \<and> signerChainId \<noteq> this_chainId this"
    using that
    by (simp add: claimPrizesByDrawResults_def getUsersAddress_def validateIsSigner_def
        validateSignerNetwork_def await_def call_def)
  have zero: "claimPrizesByDrawResults w this drawResults =
        (Inl (NothingToClaimError ''PrizeDistributors [claimPrizes] | No prizes to claim.''), [])"
    if "signerOrProvider this = Signer s \<and> signer_getAddress s = Inr usersAddress \<and>
        signer_getChainId s = Inr (this_chainId this) \<and>
        drawResults ''totalValue'' = Some (Plain (BigNumber 0))"
    using that
    by (simp add: claimPrizesByDrawResults_def getUsersAddress_def validateIsSigner_def
        validateSignerNetwork_def await_def call_def readMember_def)
  have unsent: "isl (fst (claimPrizesByDrawResults w this drawResults)) \<and>
      (\<forall>claim gasLimit. ClaimSubmitted claim gasLimit \<notin> set (snd (claimPrizesByDrawResults w this drawResults)))"
    if "drawResults ''totalValue'' = Some (Plain (BigNumber 0))"
    using claim_zero_no_effect [of drawResults w this] that by simp
  from provider mismatch zero unsent show ?thesis
    by blast
qed

text \<open>
  C3 on the example facade bound to a provider, to a signer on chain 5 and to a signer on
  chain 1; with a total that is not zero the last one submits the claim.
\<close>
theorem claimPrizesByDrawResults_refusals_example:
  "claimPrizesByDrawResults exampleWorld (exampleFacade (Provider ''rpc'')) (exampleResults 6 40) =
     (Inl (SignerRequiredError ''PrizeDistributors [claimPrizes] | ''), []) \<and>
   claimPrizesByDrawResults exampleWorld (exampleFacade (exampleSigner 5)) (exampleResults 6 40) =
     (Inl (NetworkMismatchError ''PrizeDistributors [claimPrizes] | ''), []) \<and>
   claimPrizesByDrawResults exampleWorld (exampleFacade (exampleSigner 1)) (exampleResults 6 0) =
     (Inl (NothingToClaimError ''PrizeDistributors [claimPrizes] | No prizes to claim.''), []) \<and>
   claimPrizesByDrawResults exampleWorld (exampleFacade (exampleSigner 1)) (exampleResults 6 40) =
     (Inr ''0xTX'', [ClaimSubmitted exampleClaim 400000]) \<and>
   isl (fst (claimPrizesByDrawResults exampleWorld (exampleFacade (Provider ''rpc'')) (exampleResults 6 0))) \<and>
   ClaimSubmitted exampleClaim 400000
     \<notin> set (snd (claimPrizesByDrawResults exampleWorld (exampleFacade (Provider ''rpc''))
                     (exampleResults 6 0)))"
proof -
  let ?s1 = "\<lparr>signer_getAddress = Inr ''0xA1'', signer_getChainId = Inr 1\<rparr>"
  let ?s5 = "\<lparr>signer_getAddress = Inr ''0xA1'', signer_getChainId = Inr 5\<rparr>"
  have 1: "claimPrizesByDrawResults exampleWorld (exampleFacade (Provider ''rpc'')) (exampleResults 6 40) =
     (Inl (SignerRequiredError ''PrizeDistributors [claimPrizes] | ''), [])"
    using claimPrizesByDrawResults_refusals [of "exampleFacade (Provider ''rpc'')" exampleWorld "exampleResults 6 40"]
    by (simp add: exampleFacade_fields)
  have 2: "claimPrizesByDrawResults exampleWorld (exampleFacade (exampleSigner 5)) (exampleResults 6 40) =
     (Inl (NetworkMismatchError ''PrizeDistributors [claimPrizes] | ''), [])"
    using claimPrizesByDrawResults_refusals [of "exampleFacade (exampleSigner 5)" exampleWorld "exampleResults 6 40" ?s5 "''0xA1''" 5]
    by (simp add: exampleFacade_fields exampleSigner_def)
  have 3: "claimPrizesByDrawResults exampleWorld (exampleFacade (exampleSigner 1)) (exampleResults 6 0) =
     (Inl (NothingToClaimError ''PrizeDistributors [claimPrizes] | No prizes to claim.''), [])"
    using claimPrizesByDrawResults_refusals [of "exampleFacade (exampleSigner 1)" exampleWorld "exampleResults 6 0" ?s1 "''0xA1''"]
    by (simp add: exampleFacade_fields exampleSigner_def exampleResults_def)
  have 4: "claimPrizesByDrawResults exampleWorld (exampleFacade (exampleSigner 1)) (exampleResults 6 40) =
     (Inr ''0xTX'', [ClaimSubmitted exampleClaim 400000])"
    by (simp add: claimPrizesByDrawResults_def getUsersAddress_def validateIsSigner_def
        validateSignerNetwork_def await_def call_def readMember_def exampleFacade_fields
        exampleSigner_def exampleResults_def exampleWorld_sel)
  have 5: "isl (fst (claimPrizesByDrawResults exampleWorld (exampleFacade (Provider ''rpc''))
                       (exampleResults 6 0))) \<and>
           ClaimSubmitted exampleClaim 400000
             \<notin> set (snd (claimPrizesByDrawResults exampleWorld (exampleFacade (Provider ''rpc''))
                             (exampleResults 6 0)))"
    using claimPrizesByDrawResults_refusals
      [of "exampleFacade (Provider ''rpc'')" exampleWorld "exampleResults 6 0"]
    by (simp add: exampleResults_def)
  from 1 2 3 4 5 show ?thesis
    by blast
qed

subsection \<open>C4: the zero balance\<close>

text \<open>
  Claim C4. Once the prize distribution of the draw is fetched and the chain has answered
  the user's normalized balance: when the balance is zero \<open>getUsersPrizes\<close> returns
  \<open>{drawId: draw.drawId, totalValue: 0, prizes: []}\<close> and the prize-calculation routine
  is not called; when it is not zero the method returns what the routine gives for the
  fetched prize distribution, the draw and the user \<open>{address, normalizedBalances:
  [balance]}\<close>. The only effects besides the call of the routine are those of the fetch.
\<close>
theorem getUsersPrizes_short_circuit:
  assumes pd: "getPrizeDistribution w this (drawId draw) = (Inr prizeDistribution, evs)"
    and bal: "functions_getNormalizedBalancesForDrawIds w (drawCalculatorContract this) usersAddress
                [drawId draw] = Inr (normalizedBalance # rest)"
  shows "(normalizedBalance = 0 \<longrightarrow>
            getUsersPrizes w this usersAddress draw =
              (Inr [''drawId'' \<mapsto> Plain (Number (drawId draw)),
                    ''totalValue'' \<mapsto> Plain (BigNumber 0),
                    ''prizes'' \<mapsto> PrizeArray []], evs) \<and>
            Calculated \<notin> set (snd (getUsersPrizes w this usersAddress draw))) \<and>
         (normalizedBalance \<noteq> 0 \<longrightarrow>
            getUsersPrizes w this usersAddress draw =
              (calculateDrawResults w prizeDistribution draw
                 \<lparr>user_address = usersAddress, normalizedBalances = Some [normalizedBalance]\<rparr>,
               evs @ [Calculated]))"
proof -
  from getPrizeDistribution_not_Calculated [of w this "drawId draw"] pd
  have "Calculated \<notin> set evs"
    by simp
  with pd bal show ?thesis
    by (simp add: getUsersPrizes_def await_def call_def Let_def)
qed

text \<open>C4 on the example chain: the user \<open>0xZero\<close> has no balance, the user \<open>0xA1\<close> has.\<close>
theorem getUsersPrizes_short_circuit_example:
  "getUsersPrizes exampleWorld (exampleFacade (Provider ''rpc'')) ''0xZero'' (exampleDraw 6) =
     (Inr [''drawId'' \<mapsto> Plain (Number 6), ''totalValue'' \<mapsto> Plain (BigNumber 0),
           ''prizes'' \<mapsto> PrizeArray []],
      [AddressFetched ''prizeDistributionsBuffer'', Resolved PrizeDistributionBuffer ''0xB2'',
       FieldsSet ''prizeDistributionsBuffer'' (exampleMetadata ''0xB2'' PrizeDistributionBuffer)
         (exampleContract (Provider ''rpc'') ''0xB2'')]) \<and>
   Calculated \<notin> set (snd (getUsersPrizes exampleWorld (exampleFacade (Provider ''rpc'')) ''0xZero''
                              (exampleDraw 6))) \<and>
   getUsersPrizes exampleWorld (exampleFacade (Provider ''rpc'')) ''0xA1'' (exampleDraw 6) =
     (Inr (exampleResults 6 40),
      [AddressFetched ''prizeDistributionsBuffer'', Resolved PrizeDistributionBuffer ''0xB2'',
       FieldsSet ''prizeDistributionsBuffer'' (exampleMetadata ''0xB2'' PrizeDistributionBuffer)
         (exampleContract (Provider ''rpc'') ''0xB2''),
       Calculated])"
proof -
  have d: "drawId (exampleDraw 6) = 6"
    by (simp add: exampleDraw_def)
  have pd: "getPrizeDistribution exampleWorld (exampleFacade (Provider ''rpc'')) (drawId (exampleDraw 6)) =
     (Inr examplePrizeDistribution,
      [AddressFetched ''prizeDistributionsBuffer'', Resolved PrizeDistributionBuffer ''0xB2'',
       FieldsSet ''prizeDistributionsBuffer'' (exampleMetadata ''0xB2'' PrizeDistributionBuffer)
         (exampleContract (Provider ''rpc'') ''0xB2'')])"
    by (rule example_getPrizeDistribution)
  have zero: "functions_getNormalizedBalancesForDrawIds exampleWorld
                (drawCalculatorContract (exampleFacade (Provider ''rpc''))) ''0xZero''
                [drawId (exampleDraw 6)] = Inr [0]"
    by (simp add: exampleWorld_sel)
  have five: "functions_getNormalizedBalancesForDrawIds exampleWorld
                (drawCalculatorContract (exampleFacade (Provider ''rpc''))) ''0xA1''
                [drawId (exampleDraw 6)] = Inr [5]"
    by (simp add: exampleWorld_sel)
  from getUsersPrizes_short_circuit [OF pd zero] getUsersPrizes_short_circuit [OF pd five] show ?thesis
    by (simp add: d exampleWorld_sel)
qed

subsection \<open>C5: the draw-results conversion\<close>

text \<open>
  Claim C5, as the code has it. Applied to a record with a prizes array, the
  draw-results conversion returns, when it returns, exactly \<open>{drawId, totalValue, prizes}\<close>,
  the first two as the input has them. Each prize is rebuilt with exactly the fields
  \<open>amount\<close>, \<open>tierIndex\<close> and \<open>pick\<close>: \<open>tierIndex\<close> is the input's \<open>distributionIndex\<close>
  when that field is present and its \<open>tierIndex\<close> otherwise, \<open>amount\<close> and \<open>pick\<close> are
  what \<open>BigNumber.from\<close> makes of the input's amount and pick, and no other field of the
  prize is kept. The conversion returns exactly when \<open>BigNumber.from\<close> takes the amount
  and the pick of every prize. Where amount and pick are BigNumbers and \<open>BigNumber.from\<close>
  returns a BigNumber as it is, they come back unchanged.
\<close>
theorem formatDrawResults_rebuilds:
  assumes ps: "prizesOf r = Some ps"
  shows
    "(formatDrawResultsFromLegacyDrawResults BigNumber_from r = Inr r' \<longrightarrow>
        dom r' = {''drawId'', ''totalValue'', ''prizes''} \<and>
        r' ''drawId'' = Some (readMember r ''drawId'') \<and>
        r' ''totalValue'' = Some (readMember r ''totalValue'') \<and>
        (\<exists>qs. r' ''prizes'' = Some (PrizeArray qs) \<and>
           list_all2 (\<lambda>p q.
               dom q = {''amount'', ''tierIndex'', ''pick''} \<and>
               BigNumber_from (readField p ''amount'') = Inr (the (q ''amount'')) \<and>
               BigNumber_from (readField p ''pick'') = Inr (the (q ''pick'')) \<and>
               q ''tierIndex'' =
                 Some (case p ''distributionIndex'' of Some t \<Rightarrow> t | None \<Rightarrow> readField p ''tierIndex''))
             ps qs)) \<and>
     ((\<exists>r''. formatDrawResultsFromLegacyDrawResults BigNumber_from r = Inr r'') \<longleftrightarrow>
        (\<forall>p \<in> set ps. \<not> isl (BigNumber_from (readField p ''amount'')) \<and>
                      \<not> isl (BigNumber_from (readField p ''pick'')))) \<and>
     ((\<forall>b. BigNumber_from (BigNumber b) = Inr (BigNumber b)) \<and>
      list_all (\<lambda>p. isBigNumber (p ''amount'') \<and> isBigNumber (p ''pick'')) ps \<longrightarrow>
        formatDrawResultsFromLegacyDrawResults BigNumber_from r =
          Inr [''drawId'' \<mapsto> readMember r ''drawId'',
               ''totalValue'' \<mapsto> readMember r ''totalValue'',
               ''prizes'' \<mapsto>
                 PrizeArray
                   (map (\<lambda>p. [''amount'' \<mapsto> the (p ''amount''),
                              ''tierIndex'' \<mapsto>
                                (case p ''distributionIndex'' of Some t \<Rightarrow> t
                                 | None \<Rightarrow> readField p ''tierIndex''),
                              ''pick'' \<mapsto> the (p ''pick'')]) ps)])"
proof (intro conjI impI)
  assume "formatDrawResultsFromLegacyDrawResults BigNumber_from r = Inr r'"
  note general = formatDrawResults_returned [OF ps this]
  from general show "dom r' = {''drawId'', ''totalValue'', ''prizes''}"
    by (elim conjE)
  from general show "r' ''drawId'' = Some (readMember r ''drawId'')"
    by (elim conjE)
  from general show "r' ''totalValue'' = Some (readMember r ''totalValue'')"
    by (elim conjE)
  from general show "\<exists>qs. r' ''prizes'' = Some (PrizeArray qs) \<and>
           list_all2 (\<lambda>p q.
               dom q = {''amount'', ''tierIndex'', ''pick''} \<and>
               BigNumber_from (readField p ''amount'') = Inr (the (q ''amount'')) \<and>
               BigNumber_from (readField p ''pick'') = Inr (the (q ''pick'')) \<and>
               q ''tierIndex'' =
                 Some (case p ''distributionIndex'' of Some t \<Rightarrow> t | None \<Rightarrow> readField p ''tierIndex''))
             ps qs"
    by (elim conjE)
next
  show "(\<exists>r''. formatDrawResultsFromLegacyDrawResults BigNumber_from r = Inr r'') \<longleftrightarrow>
        (\<forall>p \<in> set ps. \<not> isl (BigNumber_from (readField p ''amount'')) \<and>
                      \<not> isl (BigNumber_from (readField p ''pick'')))"
    by (rule formatDrawResults_returns_iff [OF ps])
next
  assume "(\<forall>b. BigNumber_from (BigNumber b) = Inr (BigNumber b)) \<and>
      list_all (\<lambda>p. isBigNumber (p ''amount'') \<and> isBigNumber (p ''pick'')) ps"
  then have big: "\<forall>b. BigNumber_from (BigNumber b) = Inr (BigNumber b)"
    and all: "list_all (\<lambda>p. isBigNumber (p ''amount'') \<and> isBigNumber (p ''pick'')) ps"
    by (rule conjunct1, rule conjunct2)
  show "formatDrawResultsFromLegacyDrawResults BigNumber_from r =
          Inr [''drawId'' \<mapsto> readMember r ''drawId'',
               ''totalValue'' \<mapsto> readMember r ''totalValue'',
               ''prizes'' \<mapsto>
                 PrizeArray
                   (map (\<lambda>p. [''amount'' \<mapsto> the (p ''amount''),
                              ''tierIndex'' \<mapsto>
                                (case p ''distributionIndex'' of Some t \<Rightarrow> t
                                 | None \<Rightarrow> readField p ''tierIndex''),
                              ''pick'' \<mapsto> the (p ''pick'')]) ps)]"
    by (rule formatDrawResults_big [OF ps big all])
qed

text \<open>
  The example of the spec: the prize with \<open>distributionIndex = 3\<close>, \<open>amount = 100\<close>,
  \<open>pick = 5\<close> becomes \<open>{amount: 100, tierIndex: 3, pick: 5}\<close>, also when its amount is
  the number 100, which \<open>BigNumber.from\<close> turns into a BigNumber.
\<close>
theorem formatDrawResults_rebuilds_example:
  "prizesOf legacyResults = Some [legacyPrize3] \<and>
   formatDrawResultsFromLegacyDrawResults BigNumber_only legacyResults = Inr canonicalResults \<and>
   prizesOf numberResults = Some [numberPrize3] \<and>
   formatDrawResultsFromLegacyDrawResults BigNumber_ethers numberResults = Inr canonicalResults \<and>
   BigNumber_ethers (readField numberPrize3 ''amount'') = Inr (BigNumber 100) \<and>
   BigNumber_ethers (readField numberPrize3 ''pick'') = Inr (BigNumber 5)"
proof -
  have l: "prizesOf legacyResults = Some [legacyPrize3]"
    by (simp add: prizesOf_def legacyResults_def)
  have n: "prizesOf numberResults = Some [numberPrize3]"
    by (simp add: prizesOf_def numberResults_def)
  have big: "(\<forall>b. BigNumber_only (BigNumber b) = Inr (BigNumber b)) \<and>
      list_all (\<lambda>p. isBigNumber (p ''amount'') \<and> isBigNumber (p ''pick'')) [legacyPrize3]"
    by (simp add: BigNumber_only_big isBigNumber_def legacyPrize3_def)
  from formatDrawResults_rebuilds [OF l, of BigNumber_only, THEN conjunct2, THEN conjunct2, THEN mp, OF big]
  have first: "formatDrawResultsFromLegacyDrawResults BigNumber_only legacyResults = Inr canonicalResults"
    by (simp add: legacyResults_def canonicalResults_def readMember_def readField_def legacyPrize3_def
        canonicalPrize3_def)
  note rebuilt = formatDrawResults_rebuilds [OF n, of BigNumber_ethers canonicalResults, THEN conjunct1,
      THEN mp, OF format_numberResults]
  have prizes: "canonicalResults ''prizes'' = Some (PrizeArray [canonicalPrize3])"
    by (simp add: canonicalResults_def)
  from rebuilt [THEN conjunct2, THEN conjunct2, THEN conjunct2]
  have "BigNumber_ethers (readField numberPrize3 ''amount'') = Inr (the (canonicalPrize3 ''amount'')) \<and>
        BigNumber_ethers (readField numberPrize3 ''pick'') = Inr (the (canonicalPrize3 ''pick''))"
    unfolding prizes by simp
  then have "BigNumber_ethers (readField numberPrize3 ''amount'') = Inr (BigNumber 100)"
    "BigNumber_ethers (readField numberPrize3 ''pick'') = Inr (BigNumber 5)"
    by (simp_all add: canonicalPrize3_def)
  with l n first format_numberResults show ?thesis
    by simp
qed

text \<open>
  C5 as the spec words it, every field other than the tier field copied verbatim and
  nothing coerced, does not hold of the code: the field \<open>note\<close> of a legacy prize is
  lost, and an amount that is the number 100 comes back as the BigNumber 100.
\<close>
theorem formatDrawResults_drops_and_coerces:
  "formatDrawResultsFromLegacyDrawResults BigNumber_only notedResults = Inr canonicalResults \<and>
   notedPrize3 ''note'' = Some (String ''bonus'') \<and>
   canonicalPrize3 ''note'' = None \<and>
   formatDrawResultsFromLegacyDrawResults BigNumber_ethers numberResults = Inr canonicalResults \<and>
   numberPrize3 ''amount'' = Some (Number 100) \<and>
   canonicalPrize3 ''amount'' = Some (BigNumber 100)"
  by (simp add: format_notedResults format_numberResults notedPrize3_def numberPrize3_def
      canonicalPrize3_def)

subsection \<open>C6: idempotence\<close>



subsection \<open>C7: sibling fields\<close>

text \<open>
  Claim C7. The extended conversion leaves every field of the wrapper other than
  \<open>prizes\<close> as it was, adds and removes no field, and replaces \<open>prizes\<close> by the
  normalized prizes.
\<close>
theorem extended_preserves_siblings:
  assumes "prizesOf r = Some ps"
  shows "\<exists>r'. formatDrawResultsFromLegacyDrawResults_extended r = Inr r' \<and>
              (\<forall>k. k \<noteq> ''prizes'' \<longrightarrow> r' k = r k) \<and>
              dom r' = dom r \<and>
              prizesOf r' = Some (map normalizePrize ps)"
proof -
  from assms have "''prizes'' \<in> dom r"
    by (auto simp: prizesOf_Some)
  then have "dom (r(''prizes'' \<mapsto> PrizeArray (map normalizePrize ps))) = dom r"
    by auto
  then show ?thesis
    using extended_unfold [OF assms] by (simp add: prizesOf_def)
qed

text \<open>C7 on a wrapper with the extra field \<open>usersAddress\<close>.\<close>
theorem extended_preserves_siblings_example:
  "prizesOf extendedLegacy = Some [legacyPrize3] \<and>
   (\<exists>r'. formatDrawResultsFromLegacyDrawResults_extended extendedLegacy = Inr r' \<and>
         r' ''usersAddress'' = Some (Plain (String ''0xA1'')) \<and>
         r' ''drawId'' = Some (Plain (Number 7)) \<and>
         r' ''totalValue'' = Some (Plain (BigNumber 100)) \<and>
         prizesOf r' = Some [legacyPrize3(''tierIndex'' \<mapsto> Number 3)])"
proof -
  from extended_preserves_siblings [OF prizesOf_extendedLegacy]
  obtain r' where r': "formatDrawResultsFromLegacyDrawResults_extended extendedLegacy = Inr r'"
    and frame: "\<forall>k. k \<noteq> ''prizes'' \<longrightarrow> r' k = extendedLegacy k"
    and prizes: "prizesOf r' = Some (map normalizePrize [legacyPrize3])"
    by blast
  from frame have "r' ''usersAddress'' = Some (Plain (String ''0xA1''))"
    "r' ''drawId'' = Some (Plain (Number 7))" "r' ''totalValue'' = Some (Plain (BigNumber 100))"
    by (simp_all add: extendedLegacy_def)
  with r' prizes prizesOf_extendedLegacy show ?thesis
    by (simp add: normalizePrize_legacyPrize3)
qed

subsection \<open>C8: a rejected batch aborts\<close>

text \<open>
  Claim C8. When the batched address fetch of some chain is rejected,
  \<open>initializePrizeDistributors\<close> is rejected with \<open>new Error(reason)\<close> for the reason of a
  chain whose fetch was rejected: no list of facades is returned, whatever the other
  chains answered.
\<close>
theorem initializePrizeDistributors_aborts:
  assumes chain: "(c, cs) \<in> set (sortContractsByChainId (getContractsByType contracts PrizeDistributor))"
    and fails: "batch w (providerFor signersOrProviders c) cs = Inl reason"
  shows "\<exists>c' cs' reason'.
           (c', cs') \<in> set (sortContractsByChainId (getContractsByType contracts PrizeDistributor)) \<and>
           batch w (providerFor signersOrProviders c') cs' = Inl reason' \<and>
           initializePrizeDistributors w extendContractWithChildren sortContractsByContractTypeAndChildren
             signersOrProviders contracts = Inl (Rethrown reason')"
proof -
  let ?groups = "sortContractsByChainId (getContractsByType contracts PrizeDistributor)"
  let ?fetch = "\<lambda>(chainId0, prizeDistributorsContracts0).
                   fetchClaimableDrawAddressesByChainId w chainId0
                     (providerFor signersOrProviders chainId0) prizeDistributorsContracts0"
  from fails have "?fetch (c, cs) = Inl reason"
    by (simp add: fetchClaimableDrawAddressesByChainId_def)
  with chain have "Inl reason \<in> set (map ?fetch ?groups)"
    by (metis (no_types, lifting) image_eqI set_map)
  from collectFulfilled_rejected [OF this]
  obtain reason' where mem: "Inl reason' \<in> set (map ?fetch ?groups)"
    and coll: "collectFulfilled (map ?fetch ?groups) = Inl (Rethrown reason')"
    by blast
  from mem obtain c' cs' where g: "(c', cs') \<in> set ?groups" and f: "?fetch (c', cs') = Inl reason'"
    by auto
  from f have "batch w (providerFor signersOrProviders c') cs' = Inl reason'"
    by (simp add: fetchClaimableDrawAddressesByChainId_def split: sum.splits)
  moreover from coll have "initializePrizeDistributors w extendContractWithChildren
      sortContractsByContractTypeAndChildren signersOrProviders contracts = Inl (Rethrown reason')"
    by (simp add: initializePrizeDistributors_def Let_def)
  ultimately show ?thesis
    using g by blast
qed

text \<open>
  C8 on two chains: the fetch of chain 1 is fulfilled, chain 5 has no provider and its
  fetch is rejected; the initialization is rejected as a whole.
\<close>
theorem initializePrizeDistributors_aborts_example:
  "(5, [\<lparr>chainId = 5, address = ''0xD5'', type' = PrizeDistributor, abi = ''abi'', children = None\<rparr>])
     \<in> set (sortContractsByChainId (getContractsByType twoChainContracts PrizeDistributor)) \<and>
   batch exampleWorld (providerFor chainOneOnly 5)
     [\<lparr>chainId = 5, address = ''0xD5'', type' = PrizeDistributor, abi = ''abi'', children = None\<rparr>] =
     Inl (CallError ''no provider'') \<and>
   batch exampleWorld (providerFor chainOneOnly 1) [exampleMetadata ''0xD1'' PrizeDistributor] =
     Inr [(''0xD1'', ''0xC1'')] \<and>
   initializePrizeDistributors exampleWorld (\<lambda>contracts _ _. contracts) (\<lambda>contracts _. [contracts])
     chainOneOnly twoChainContracts = Inl (Rethrown (CallError ''no provider''))"
proof -
  let ?d5 = "\<lparr>chainId = 5, address = ''0xD5'', type' = PrizeDistributor, abi = ''abi'', children = None\<rparr>"
  have member: "(5, [?d5]) \<in> set (sortContractsByChainId (getContractsByType twoChainContracts PrizeDistributor))"
    by (simp add: twoChain_groups)
  have five: "batch exampleWorld (providerFor chainOneOnly 5) [?d5] = Inl (CallError ''no provider'')"
    by (simp add: batch_exampleWorld chainOneOnly_providers)
  have one: "batch exampleWorld (providerFor chainOneOnly 1) [exampleMetadata ''0xD1'' PrizeDistributor] =
     Inr [(''0xD1'', ''0xC1'')]"
    by (simp add: batch_exampleWorld chainOneOnly_providers exampleMetadata_def)
  from initializePrizeDistributors_aborts [OF member five, of "\<lambda>contracts _ _. contracts" "\<lambda>contracts _. [contracts]"]
  obtain c' cs' reason' where
    g: "(c', cs') \<in> set (sortContractsByChainId (getContractsByType twoChainContracts PrizeDistributor))"
    and f: "batch exampleWorld (providerFor chainOneOnly c') cs' = Inl reason'"
    and r: "initializePrizeDistributors exampleWorld (\<lambda>contracts _ _. contracts) (\<lambda>contracts _. [contracts])
              chainOneOnly twoChainContracts = Inl (Rethrown reason')"
    by blast
  from g f one five have "reason' = CallError ''no provider''"
    by (auto simp: twoChain_groups)
  with member five one r show ?thesis
    by simp
qed

subsection \<open>C9: the lazy handles\<close>

text \<open>
  Claim C9, as it holds. Once a handle field is set, a call of its getter made afterwards
  returns the cached handle and has no effect: no address fetch, no registry lookup, no
  assignment. Hence in any run in which each call of a getter is awaited before the next
  is made, the fields of each handle are assigned at most once, and never when they were
  set at the start.
\<close>
theorem lazy_handles_in_sequence:
  "(drawBufferContract this = Some c \<longrightarrow> getDrawBufferContract w this = (Inr c, [])) \<and>
   (prizeDistributionsBufferContract this = Some c \<longrightarrow>
      getPrizeDistributionsBufferContract w this = (Inr c, [])) \<and>
   writes ''drawBuffer'' (snd (callsInSequence calls this)) \<le> 1 \<and>
   writes ''prizeDistributionsBuffer'' (snd (callsInSequence calls this)) \<le> 1 \<and>
   (drawBufferContract this \<noteq> None \<longrightarrow> writes ''drawBuffer'' (snd (callsInSequence calls this)) = 0) \<and>
   (prizeDistributionsBufferContract this \<noteq> None \<longrightarrow>
      writes ''prizeDistributionsBuffer'' (snd (callsInSequence calls this)) = 0)"
proof -
  have "drawBufferContract this = Some c \<longrightarrow> getDrawBufferContract w this = (Inr c, [])"
    by (simp add: cached_getDrawBufferContract)
  moreover have "prizeDistributionsBufferContract this = Some c \<longrightarrow>
      getPrizeDistributionsBufferContract w this = (Inr c, [])"
    by (simp add: cached_getPrizeDistributionsBufferContract)
  moreover from callsInSequence_writes [of calls this]
  have "writes ''drawBuffer'' (snd (callsInSequence calls this)) \<le> 1"
    and "writes ''prizeDistributionsBuffer'' (snd (callsInSequence calls this)) \<le> 1"
    and "drawBufferContract this \<noteq> None \<longrightarrow> writes ''drawBuffer'' (snd (callsInSequence calls this)) = 0"
    and "prizeDistributionsBufferContract this \<noteq> None \<longrightarrow>
      writes ''prizeDistributionsBuffer'' (snd (callsInSequence calls this)) = 0"
    by (auto split: if_splits)
  ultimately show ?thesis
    by blast
qed

text \<open>
  C9 on the example facade: with both handles resolved the getters return them and three
  calls in a row assign nothing; on the fresh facade two calls in a row assign once.
\<close>
theorem lazy_handles_in_sequence_example:
  "drawBufferContract (exampleLinked (Provider ''rpc'')) = Some (exampleContract (Provider ''rpc'') ''0xB1'') \<and>
   getDrawBufferContract exampleWorld (exampleLinked (Provider ''rpc'')) =
     (Inr (exampleContract (Provider ''rpc'') ''0xB1''), []) \<and>
   prizeDistributionsBufferContract (exampleLinked (Provider ''rpc'')) =
     Some (exampleContract (Provider ''rpc'') ''0xB2'') \<and>
   getPrizeDistributionsBufferContract exampleWorld (exampleLinked (Provider ''rpc'')) =
     (Inr (exampleContract (Provider ''rpc'') ''0xB2''), []) \<and>
   writes ''drawBuffer''
     (snd (callsInSequence
        [(GetDrawBufferContract, exampleWorld), (GetDrawBufferContract, exampleWorld),
         (GetPrizeDistributionsBufferContract, exampleWorld)]
        (exampleLinked (Provider ''rpc'')))) = 0 \<and>
   writes ''prizeDistributionsBuffer''
     (snd (callsInSequence
        [(GetDrawBufferContract, exampleWorld), (GetDrawBufferContract, exampleWorld),
         (GetPrizeDistributionsBufferContract, exampleWorld)]
        (exampleLinked (Provider ''rpc'')))) = 0 \<and>
   writes ''drawBuffer''
     (snd (callsInSequence [(GetDrawBufferContract, exampleWorld), (GetDrawBufferContract, exampleWorld)]
        (exampleFacade (Provider ''rpc'')))) = 1"
proof -
  note inst = lazy_handles_in_sequence [of "exampleLinked (Provider ''rpc'')" _ exampleWorld
      "[(GetDrawBufferContract, exampleWorld), (GetDrawBufferContract, exampleWorld),
        (GetPrizeDistributionsBufferContract, exampleWorld)]"]
  have fresh: "writes ''drawBuffer''
     (snd (callsInSequence [(GetDrawBufferContract, exampleWorld), (GetDrawBufferContract, exampleWorld)]
        (exampleFacade (Provider ''rpc'')))) = 1"
    unfolding example_two_calls by (simp add: writes_def)
  from inst [of "exampleContract (Provider ''rpc'') ''0xB1''"]
       inst [of "exampleContract (Provider ''rpc'') ''0xB2''"] fresh
  show ?thesis
    by (simp add: exampleLinked_fields del: callsInSequence.simps)
qed

text \<open>
  Claim C9, as stated, fails on the facade the constructor builds for the example:
  \<open>getValidDrawIds\<close> calls its four reads before any of them resumes, so both reads of a
  buffer find the handle unset; each fetches the address, and each assigns the fields.
  The continuation of a getter assigns even on the object whose handle is set already.
\<close>
theorem concurrent_reads_assign_twice:
  "newPrizeDistributor (Provider ''rpc'') exampleContracts = Inr (exampleFacade (Provider ''rpc'')) \<and>
   getAndSetEthersContract_start ''drawBuffer'' (exampleFacade (Provider ''rpc'')) = None \<and>
   getAndSetEthersContract_start ''prizeDistributionsBuffer'' (exampleFacade (Provider ''rpc'')) = None \<and>
   writes ''drawBuffer'' (snd (getValidDrawIds exampleWorld (exampleFacade (Provider ''rpc'')))) = 2 \<and>
   fetches ''drawBuffer'' (snd (getValidDrawIds exampleWorld (exampleFacade (Provider ''rpc'')))) = 2 \<and>
   writes ''prizeDistributionsBuffer'' (snd (getValidDrawIds exampleWorld (exampleFacade (Provider ''rpc'')))) = 2 \<and>
   fetches ''prizeDistributionsBuffer'' (snd (getValidDrawIds exampleWorld (exampleFacade (Provider ''rpc'')))) = 2 \<and>
   drawBufferContract (exampleLinked (Provider ''rpc'')) = Some (exampleContract (Provider ''rpc'') ''0xB1'') \<and>
   writes ''drawBuffer''
     (snd (getAndSetEthersContract_resume ''drawBuffer'' DrawBuffer (Inr ''0xB1'')
             (exampleLinked (Provider ''rpc'')))) = 1"
  by (simp add: exampleFacade_constructed exampleFacade_fields example_getValidDrawIds_effects
      writes_def fetches_def getAndSetEthersContract_start_def contractField_def example_resume
      exampleLinked_fields)

subsection \<open>C10: the legacy tier field stays\<close>

text \<open>
  Claim C10. In the extended conversion a prize that has a \<open>distributionIndex\<close> keeps it:
  the converted prize has the same \<open>distributionIndex\<close>, and its \<open>tierIndex\<close> holds that
  value as well.
\<close>
theorem extended_retains_distributionIndex:
  assumes "prizesOf r = Some ps"
  shows "\<exists>r' qs. formatDrawResultsFromLegacyDrawResults_extended r = Inr r' \<and>
           prizesOf r' = Some qs \<and>
           list_all2 (\<lambda>p q. p ''distributionIndex'' \<noteq> None \<longrightarrow>
                        q ''distributionIndex'' = p ''distributionIndex'' \<and>
                        q ''tierIndex'' = p ''distributionIndex'') ps qs"
proof -
  have "list_all2 (\<lambda>p q. p ''distributionIndex'' \<noteq> None \<longrightarrow>
                        q ''distributionIndex'' = p ''distributionIndex'' \<and>
                        q ''tierIndex'' = p ''distributionIndex'') ps (map normalizePrize ps)"
    by (induction ps) (auto simp: normalizePrize_def tierIndexOf_def readField_def)
  then show ?thesis
    using extended_unfold [OF assms] by (simp add: prizesOf_def)
qed

text \<open>C10 on the legacy prize of the example.\<close>
theorem extended_retains_distributionIndex_example:
  "prizesOf extendedLegacy = Some [legacyPrize3] \<and>
   legacyPrize3 ''distributionIndex'' = Some (Number 3) \<and>
   (\<exists>r' q. formatDrawResultsFromLegacyDrawResults_extended extendedLegacy = Inr r' \<and>
           prizesOf r' = Some [q] \<and>
           q ''distributionIndex'' = Some (Number 3) \<and> q ''tierIndex'' = Some (Number 3))"
proof -
  have d: "legacyPrize3 ''distributionIndex'' = Some (Number 3)"
    by (simp add: legacyPrize3_def)
  from extended_retains_distributionIndex [OF prizesOf_extendedLegacy]
  obtain r' qs where r': "formatDrawResultsFromLegacyDrawResults_extended extendedLegacy = Inr r'"
    and qs: "prizesOf r' = Some qs"
    and rel: "list_all2 (\<lambda>p q. p ''distributionIndex'' \<noteq> None \<longrightarrow>
                        q ''distributionIndex'' = p ''distributionIndex'' \<and>
                        q ''tierIndex'' = p ''distributionIndex'') [legacyPrize3] qs"
    by blast
  from rel obtain q where "qs = [q]"
    and "q ''distributionIndex'' = legacyPrize3 ''distributionIndex''"
    and "q ''tierIndex'' = legacyPrize3 ''distributionIndex''"
    using d by (auto simp: list_all2_Cons1)
  with r' qs d prizesOf_extendedLegacy show ?thesis
    by auto
qed

end
